theory Spec2Isabelle
  imports Complex_Main
begin

section \<open>Numbers and arrays\<close>

text \<open>
  The feature extractors of \<^verbatim>\<open>expr/feature.py\<close> work on numpy arrays. A
  two-dimensional array is a list of rows. Float arithmetic on arrays (convolution,
  mean, variance, z-score, and the store into a 32-bit float array) is taken over the
  reals, rounding aside, with the one part of float arithmetic that the reals do not
  have written out: a division by zero does not raise in numpy, it yields a value that is
  not a number or is infinite. Such values are kept apart from the finite ones in
  \<open>npfloat\<close>.
\<close>

type_synonym array2 = "real list list"

text \<open>
  An image is a two-dimensional array with an element type. The element type matters
  to the code in one place: \<^verbatim>\<open>scipy.ndimage.convolve\<close> returns its result in the
  element type of its input, so each computed value is converted to that type before
  anything else reads it. \<open>astype\<close> is that conversion of the image's element type,
  applied to a double: the identity for a float image, and for an 8-bit unsigned image
  the cut towards zero followed by the wrap-around modulo 256.
\<close>

record ndimage =
  astype :: "real \<Rightarrow> real"
  pixels :: array2

definition float_image :: "array2 \<Rightarrow> ndimage" where
  "float_image a = \<lparr> astype = (\<lambda>v. v), pixels = a \<rparr>"

definition uint8_cast :: "real \<Rightarrow> real" where
  "uint8_cast v = of_int ((if 0 \<le> v then \<lfloor>v\<rfloor> else \<lceil>v\<rceil>) mod 256)"

definition uint8_image :: "array2 \<Rightarrow> ndimage" where
  "uint8_image a = \<lparr> astype = uint8_cast, pixels = a \<rparr>"

datatype npfloat = Finite real | PosInf | NegInf | NaN

text \<open>
  A call that raises returns the exception as a value of \<open>error\<close>:
  \<^verbatim>\<open>ZeroDivisionError\<close> and \<^verbatim>\<open>AttributeError\<close> are the two exceptions the code of
  the source itself can raise, \<open>NotFittedError\<close> stands for an explicit "not fitted"
  report (no function of the source produces it), and \<open>LibraryError\<close> for a failure
  inside a library primitive.
\<close>

datatype error = ZeroDivisionError | AttributeError | NotFittedError | LibraryError

fun is_finite :: "npfloat \<Rightarrow> bool" where
  "is_finite (Finite r) = True"
| "is_finite PosInf = False"
| "is_finite NegInf = False"
| "is_finite NaN = False"

definition np_div :: "real \<Rightarrow> real \<Rightarrow> npfloat" where
  "np_div a b =
     (if b \<noteq> 0 then Finite (a / b)
      else if 0 < a then PosInf
      else if a < 0 then NegInf
      else NaN)"

definition mean1 :: "real list \<Rightarrow> real" where
  "mean1 v = sum_list v / real (length v)"

definition var1 :: "real list \<Rightarrow> real" where
  "var1 v = mean1 (map (\<lambda>a. (a - mean1 v)\<^sup>2) v)"

definition std1 :: "real list \<Rightarrow> real" where
  "std1 v = sqrt (var1 v)"

text \<open>\<^verbatim>\<open>a.mean()\<close> and \<^verbatim>\<open>a.var()\<close> of a two-dimensional array run over all its
  entries; on an array without entries numpy returns nan.\<close>

definition np_mean :: "array2 \<Rightarrow> npfloat" where
  "np_mean a = (if concat a = [] then NaN else Finite (mean1 (concat a)))"

definition np_var :: "array2 \<Rightarrow> npfloat" where
  "np_var a = (if concat a = [] then NaN else Finite (var1 (concat a)))"

definition shape2 :: "'a list list \<Rightarrow> nat \<times> nat" where
  "shape2 a = (length a, if a = [] then 0 else length (hd a))"

definition zeros_array :: "nat \<Rightarrow> nat \<Rightarrow> array2" where
  "zeros_array h w = replicate h (replicate w 0)"

text \<open>\<^verbatim>\<open>np.zeros((h, w))\<close>, a float array.\<close>

definition zeros2 :: "nat \<Rightarrow> nat \<Rightarrow> ndimage" where
  "zeros2 h w = float_image (zeros_array h w)"

definition column :: "'a list list \<Rightarrow> nat \<Rightarrow> 'a list" where
  "column a i = map (\<lambda>row. row ! i) a"

definition set_column :: "'a list list \<Rightarrow> nat \<Rightarrow> 'a list \<Rightarrow> 'a list list" where
  "set_column a i c = map (\<lambda>(row, v). row[i := v]) (zip a c)"

text \<open>The rows of a two-column array with the given columns.\<close>

definition rows2 :: "'a list \<Rightarrow> 'a list \<Rightarrow> 'a list list" where
  "rows2 c0 c1 = map (\<lambda>(a, b). [a, b]) (zip c0 c1)"

definition py_range :: "int \<Rightarrow> int list" where
  "py_range n = map int [0..<nat n]"

subsection \<open>Double-precision scalars\<close>

text \<open>
  Scalar expressions on Python floats are rounded to the nearest double, ties to even.
  \<open>fl\<close> is that rounding on the normal range (no overflow, no subnormals: the scalars
  here are angles between 0 and \<open>\<pi>\<close> and small counts). \<open>np_pi\<close> is the double
  \<^verbatim>\<open>0x1.921fb54442d18p+1\<close> that \<^verbatim>\<open>np.pi\<close> holds.
\<close>

definition round_half_even :: "real \<Rightarrow> int" where
  "round_half_even x =
     (let f = \<lfloor>x\<rfloor>; d = x - of_int f
      in if d < 1 / 2 then f
         else if 1 / 2 < d then f + 1
         else if even f then f else f + 1)"

definition fl :: "real \<Rightarrow> real" where
  "fl x =
     (if x = 0 then 0
      else let e = \<lfloor>log 2 \<bar>x\<bar>\<rfloor> - 52
           in of_int (round_half_even (x / 2 powi e)) * 2 powi e)"

definition np_pi :: real where
  "np_pi = 884279719003555 / 2 ^ 48"

subsection \<open>The convolution primitive\<close>

text \<open>
  \<^verbatim>\<open>scipy.ndimage.convolve(x, w, mode, cval=0)\<close> on two-dimensional arrays: the
  output has the shape and the element type of \<open>x\<close>, and entry \<open>(i, j)\<close> is the sum
  over the kernel of \<open>w[a, b] * x[i + kh div 2 - a, j + kw div 2 - b]\<close>, converted to
  the element type of \<open>x\<close>, where an index outside the image is brought back by the
  boundary mode: \<open>Wrap\<close> repeats the image periodically, \<open>Reflect\<close> mirrors it at
  its edges (\<open>d c b a | a b c d | d c b a\<close>).
\<close>

datatype boundary = Wrap | Reflect

definition extend_index :: "boundary \<Rightarrow> nat \<Rightarrow> int \<Rightarrow> nat" where
  "extend_index mode n i =
     (case mode of
        Wrap \<Rightarrow> nat (i mod int n)
      | Reflect \<Rightarrow>
          (let p = i mod (2 * int n)
           in if p < int n then nat p else nat (2 * int n - 1 - p)))"

definition nd_convolve :: "boundary \<Rightarrow> ndimage \<Rightarrow> array2 \<Rightarrow> array2" where
  "nd_convolve mode x w =
     (let (H, W) = shape2 (pixels x); (kh, kw) = shape2 w
      in map (\<lambda>i. map (\<lambda>j.
           astype x
             (\<Sum>a\<leftarrow>[0..<kh]. \<Sum>b\<leftarrow>[0..<kw].
                 w ! a ! b
                 * pixels x ! extend_index mode H (int i + int (kh div 2) - int a)
                     ! extend_index mode W (int j + int (kw div 2) - int b)))
           [0..<W]) [0..<H])"

section \<open>GaborFilterSki\<close>

text \<open>
  An instance holds what \<^verbatim>\<open>__init__\<close> assigns: \<^verbatim>\<open>_freq_t\<close>, \<^verbatim>\<open>_theta_r\<close>,
  \<^verbatim>\<open>_sigma_t\<close> and \<^verbatim>\<open>_kernels\<close>. Two more slots of the instance take part in the
  code: the attribute \<^verbatim>\<open>filter\<close>, which the pipelines \<^verbatim>\<open>LGBPHS\<close> and
  \<^verbatim>\<open>GaborFilterFisher\<close> rebind to another bound method after construction
  (\<open>filter_attr\<close> says which method a call \<^verbatim>\<open>self.filter(x)\<close> reaches), and the attribute
  \<^verbatim>\<open>_prop\<close> that the property \<^verbatim>\<open>prop\<close> reads (\<open>prop_attr\<close>, \<open>None\<close> while the
  attribute does not exist).

  \<^verbatim>\<open>skimage.filters.gabor_kernel\<close> is a library primitive; the real part of what it
  returns for a frequency, an angle and the two scale parameters is the argument
  \<open>gabor_kernel\<close> of the constructor. The constructor of the base class
  \<^verbatim>\<open>AbstractFeature\<close>, which is not among the sources and to which the spec gives no
  state, assigns nothing. Kernels are two-dimensional float arrays.
\<close>

datatype ski_filter = BoundFilter | BoundRawConvolve | BoundConvolveToCol

record GaborFilterSki =
  freq_t :: "real list"
  theta_r :: int
  sigma_t :: "real list"
  kernels :: "array2 list"
  filter_attr :: ski_filter
  prop_attr :: "real option"

definition GaborFilterSki_init ::
  "(real \<Rightarrow> real \<Rightarrow> real \<Rightarrow> real \<Rightarrow> array2) \<Rightarrow> real list \<Rightarrow> int \<Rightarrow> real list \<Rightarrow> GaborFilterSki" where
  "GaborFilterSki_init gabor_kernel freq theta_cnt sigma_tuple =
     \<lparr> freq_t = freq, theta_r = theta_cnt, sigma_t = sigma_tuple,
       kernels =
         concat (map (\<lambda>theta.
           let theta = fl (fl (of_int theta / of_int theta_cnt) * np_pi)
           in concat (map (\<lambda>sigma.
                map (\<lambda>frequency. gabor_kernel frequency theta sigma sigma) freq)
              sigma_tuple))
           (py_range theta_cnt)),
       filter_attr = BoundFilter,
       prop_attr = None \<rparr>"

text \<open>
  Modelled from the spec: \<^verbatim>\<open>normalization.zscore\<close> of the package
  \<^verbatim>\<open>facerec_py.facerec\<close>, which is not among the sources. The spec gives it as
  \<^verbatim>\<open>zscore(vector) -> normalized vector\<close>, the z-score normalisation to mean 0 and
  unit variance, and names no policy for a vector of zero variance. The model is the
  plain z-score \<open>(v - mean v) / std v\<close> in numpy's arithmetic: the division by a zero
  standard deviation is \<open>np_div\<close>, and an entry that is not finite makes mean and
  standard deviation, and with them every entry of the result, nan.
\<close>

fun finite_values :: "npfloat list \<Rightarrow> real list option" where
  "finite_values [] = Some []"
| "finite_values (Finite r # v) = map_option ((#) r) (finite_values v)"
| "finite_values (PosInf # v) = None"
| "finite_values (NegInf # v) = None"
| "finite_values (NaN # v) = None"

definition zscore :: "npfloat list \<Rightarrow> npfloat list" where
  "zscore X =
     (case finite_values X of
        None \<Rightarrow> replicate (length X) NaN
      | Some v \<Rightarrow> map (\<lambda>a. np_div (a - mean1 v) (std1 v)) v)"

text \<open>
  \<^verbatim>\<open>filter\<close>: the first loop writes mean and variance of each kernel's response into
  row \<open>k\<close> of a zero array of shape \<open>(len(kernels), 2)\<close>; the second replaces each of
  the two columns by its z-score. \<open>GaborFilterSki_filter_stats\<close> is the array between
  the two loops. The array holds 32-bit floats; the rounding of the values stored into
  it is left out, as all float rounding of array arithmetic is.
\<close>

definition GaborFilterSki_filter_stats :: "GaborFilterSki \<Rightarrow> ndimage \<Rightarrow> npfloat list list" where
  "GaborFilterSki_filter_stats self x =
     fold (\<lambda>(k, kernel) feats.
             let filtered = nd_convolve Wrap x kernel
             in feats[k := (feats ! k)[0 := np_mean filtered, 1 := np_var filtered]])
          (enumerate 0 (kernels self))
          (replicate (length (kernels self)) [Finite 0, Finite 0])"

definition GaborFilterSki_filter :: "GaborFilterSki \<Rightarrow> ndimage \<Rightarrow> npfloat list list" where
  "GaborFilterSki_filter self x =
     fold (\<lambda>i feats. set_column feats i (zscore (column feats i)))
          [0..<2]
          (GaborFilterSki_filter_stats self x)"

definition GaborFilterSki_convolve_to_col :: "GaborFilterSki \<Rightarrow> ndimage \<Rightarrow> real list list" where
  "GaborFilterSki_convolve_to_col self x =
     map (\<lambda>kernel. concat (nd_convolve Reflect x kernel)) (kernels self)"

definition GaborFilterSki_raw_convolve :: "GaborFilterSki \<Rightarrow> ndimage \<Rightarrow> array2 list" where
  "GaborFilterSki_raw_convolve self x =
     map (\<lambda>v. nd_convolve Reflect x v) (kernels self)"

text \<open>
  A call \<^verbatim>\<open>self.filter(x)\<close> reaches the method the instance attribute is bound to. The
  three methods return arrays of different ranks, so the result carries its kind.
\<close>

datatype ski_feature = Stats "npfloat list list" | Maps "array2 list" | Cols "real list list"

definition self_filter :: "GaborFilterSki \<Rightarrow> ndimage \<Rightarrow> ski_feature" where
  "self_filter self x =
     (case filter_attr self of
        BoundFilter \<Rightarrow> Stats (GaborFilterSki_filter self x)
      | BoundRawConvolve \<Rightarrow> Maps (GaborFilterSki_raw_convolve self x)
      | BoundConvolveToCol \<Rightarrow> Cols (GaborFilterSki_convolve_to_col self x))"

text \<open>
  \<^verbatim>\<open>compute\<close> first builds the column matrix of the batch with \<^verbatim>\<open>asColumnMatrix\<close>, a
  helper of \<^verbatim>\<open>facerec_py.facerec\<close> that is not among the sources and whose result is not
  used; it is the argument \<open>asColumnMatrix\<close>, and a failure of it ends the call. The
  labels \<open>y\<close> are not read.
\<close>

definition GaborFilterSki_compute ::
  "(ndimage list \<Rightarrow> error + array2) \<Rightarrow> GaborFilterSki \<Rightarrow> ndimage list \<Rightarrow> int list
     \<Rightarrow> error + ski_feature list" where
  "GaborFilterSki_compute asColumnMatrix self X y =
     (case asColumnMatrix X of
        Inl e \<Rightarrow> Inl e
      | Inr XC \<Rightarrow> Inr (map (\<lambda>x. self_filter self x) X))"

definition GaborFilterSki_extract :: "GaborFilterSki \<Rightarrow> ndimage \<Rightarrow> error + ski_feature" where
  "GaborFilterSki_extract self X = Inr (self_filter self X)"

text \<open>The property \<^verbatim>\<open>prop\<close> returns \<^verbatim>\<open>self._prop\<close>; reading an attribute that does
  not exist raises \<^verbatim>\<open>AttributeError\<close>.\<close>

definition GaborFilterSki_prop :: "GaborFilterSki \<Rightarrow> error + real" where
  "GaborFilterSki_prop self =
     (case prop_attr self of None \<Rightarrow> Inl AttributeError | Some v \<Rightarrow> Inr v)"

text \<open>
  The calls a client can make on an instance, and the instance after each of them. None
  of the three methods assigns an attribute of \<^verbatim>\<open>self\<close>, so each returns the instance
  as it found it, next to its result.
\<close>

datatype ski_call = CallCompute "ndimage list" "int list" | CallExtract ndimage | CallFilter ndimage

datatype ski_result = Features "ski_feature list" | Feature ski_feature

fun GaborFilterSki_call ::
  "(ndimage list \<Rightarrow> error + array2) \<Rightarrow> GaborFilterSki \<Rightarrow> ski_call
     \<Rightarrow> GaborFilterSki \<times> (error + ski_result)" where
  "GaborFilterSki_call acm self (CallCompute X y) =
     (self, map_sum id Features (GaborFilterSki_compute acm self X y))"
| "GaborFilterSki_call acm self (CallExtract x) =
     (self, map_sum id Feature (GaborFilterSki_extract self x))"
| "GaborFilterSki_call acm self (CallFilter x) =
     (self, Inr (Feature (self_filter self x)))"

definition GaborFilterSki_calls ::
  "(ndimage list \<Rightarrow> error + array2) \<Rightarrow> GaborFilterSki \<Rightarrow> ski_call list \<Rightarrow> GaborFilterSki" where
  "GaborFilterSki_calls acm self cs = fold (\<lambda>c s. fst (GaborFilterSki_call acm s c)) cs self"

text \<open>
  For closed examples the kernel generator is instantiated with the real part of
  \<^verbatim>\<open>skimage.filters.gabor_kernel(frequency, theta, sigma_x, sigma_y)\<close>: a Gaussian
  envelope of three standard deviations times a cosine grating along the rotated axis.
\<close>

definition skimage_gabor_kernel_real :: "real \<Rightarrow> real \<Rightarrow> real \<Rightarrow> real \<Rightarrow> array2" where
  "skimage_gabor_kernel_real frequency theta sigma_x sigma_y =
     (let x0 = \<lceil>max (max \<bar>3 * sigma_x * cos theta\<bar> \<bar>3 * sigma_y * sin theta\<bar>) 1\<rceil>;
          y0 = \<lceil>max (max \<bar>3 * sigma_y * cos theta\<bar> \<bar>3 * sigma_x * sin theta\<bar>) 1\<rceil>
      in map (\<lambda>y. map (\<lambda>x.
           let rotx = of_int x * cos theta + of_int y * sin theta;
               roty = - of_int x * sin theta + of_int y * cos theta
           in exp (- (1 / 2) * (rotx\<^sup>2 / sigma_x\<^sup>2 + roty\<^sup>2 / sigma_y\<^sup>2))
                / (2 * pi * sigma_x * sigma_y)
                * cos (2 * pi * frequency * rotx))
           [- x0..x0]) [- y0..y0])"

section \<open>GaborFilterCv2\<close>

text \<open>
  \<^verbatim>\<open>np.arange(start, stop, step)\<close> on floats has \<open>ceil((stop - start) / step)\<close>
  entries, the quotient taken in double arithmetic, and entry \<open>i\<close> is
  \<open>start + i * step\<close>; a zero step is refused.
\<close>

definition np_arange :: "real \<Rightarrow> real \<Rightarrow> real \<Rightarrow> error + real list" where
  "np_arange start stop step =
     (if step = 0 then Inl ZeroDivisionError
      else Inr (map (\<lambda>i. fl (start + fl (real i * step)))
                    [0..<nat \<lceil>fl (fl (stop - start) / step)\<rceil>]))"

record GaborFilterCv2 =
  orient_cnt :: int
  scale_cnt :: int
  cv2_kernels :: "npfloat list list list"

text \<open>\<^verbatim>\<open>kernel /= 1.5*kernel.sum()\<close>, entry by entry.\<close>

definition kernel_normalise :: "array2 \<Rightarrow> npfloat list list" where
  "kernel_normalise k =
     map (map (\<lambda>v. np_div v (3 / 2 * sum_list (concat k)))) k"

text \<open>
  \<^verbatim>\<open>build_filters\<close>. \<^verbatim>\<open>np.pi/self._orient_cnt\<close> is a Python float division, which
  raises \<^verbatim>\<open>ZeroDivisionError\<close> for a zero count. The module is Python 2 (it uses
  \<^verbatim>\<open>xrange\<close>), where \<^verbatim>\<open>k_max/2**scale\<close> on integers is the floor division, and
  \<^verbatim>\<open>int\<close> of the float sum cuts the fraction off. \<^verbatim>\<open>cv2.getGaborKernel\<close> with the
  constants of the call (sigma 4.0, lambd 10.0, gamma 0.5, psi 0, 32-bit floats) is the
  argument \<open>getGaborKernel\<close>, a function of the kernel size and the angle.
\<close>

definition GaborFilterCv2_build_filters ::
  "(int \<Rightarrow> real \<Rightarrow> array2) \<Rightarrow> GaborFilterCv2 \<Rightarrow> error + GaborFilterCv2" where
  "GaborFilterCv2_build_filters getGaborKernel self =
     (if orient_cnt self = 0 then Inl ZeroDivisionError
      else case np_arange 0 np_pi (fl (np_pi / of_int (orient_cnt self))) of
             Inl e \<Rightarrow> Inl e
           | Inr thetas \<Rightarrow>
               Inr (self\<lparr> cv2_kernels :=
                 concat (map (\<lambda>theta.
                   map (\<lambda>scale.
                     let ksize = \<lfloor>of_int (199 div 2 ^ nat scale) + (1 / 2 :: real)\<rfloor>
                     in kernel_normalise (getGaborKernel ksize theta))
                   (py_range (scale_cnt self)))
                 thetas) \<rparr>))"

definition GaborFilterCv2_init ::
  "(int \<Rightarrow> real \<Rightarrow> array2) \<Rightarrow> int \<Rightarrow> int \<Rightarrow> error + GaborFilterCv2" where
  "GaborFilterCv2_init getGaborKernel orient scale =
     GaborFilterCv2_build_filters getGaborKernel
       \<lparr> orient_cnt = orient, scale_cnt = scale, cv2_kernels = [] \<rparr>"

text \<open>
  \<^verbatim>\<open>filter\<close>. Images are arrays of integer pixel values. \<^verbatim>\<open>cv2.filter2D\<close> is the
  argument \<open>filter2D\<close>; it returns an array of the size of the image.
  \<^verbatim>\<open>np.maximum(accum, filtered, accum)\<close> overwrites the accumulator with the entrywise
  maximum, and slice \<open>i\<close> of the result is assigned the accumulator of that moment.
\<close>

type_synonym image8 = "int list list"

definition np_maximum :: "image8 \<Rightarrow> image8 \<Rightarrow> image8" where
  "np_maximum a b = map (\<lambda>(r, s). map (\<lambda>(p, q). max p q) (zip r s)) (zip a b)"

definition zeros_like :: "image8 \<Rightarrow> image8" where
  "zeros_like x = map (map (\<lambda>p. 0)) x"

definition GaborFilterCv2_filter ::
  "(image8 \<Rightarrow> npfloat list list \<Rightarrow> image8) \<Rightarrow> GaborFilterCv2 \<Rightarrow> image8 \<Rightarrow> image8 list" where
  "GaborFilterCv2_filter filter2D self x =
     fst (fold (\<lambda>(i, v) (feats, accum).
                  let filtered = filter2D x v;
                      accum = np_maximum accum filtered
                  in (feats[i := accum], accum))
               (enumerate 0 (cv2_kernels self))
               (replicate (length (cv2_kernels self)) (zeros_like x), zeros_like x))"

definition GaborFilterCv2_compute ::
  "(image8 list \<Rightarrow> error + image8) \<Rightarrow> (image8 \<Rightarrow> npfloat list list \<Rightarrow> image8)
     \<Rightarrow> GaborFilterCv2 \<Rightarrow> image8 list \<Rightarrow> int list \<Rightarrow> error + image8 list list" where
  "GaborFilterCv2_compute asColumnMatrix filter2D self X y =
     (case asColumnMatrix X of
        Inl e \<Rightarrow> Inl e
      | Inr XC \<Rightarrow> Inr (map (\<lambda>x. GaborFilterCv2_filter filter2D self x) X))"

definition GaborFilterCv2_extract ::
  "(image8 \<Rightarrow> npfloat list list \<Rightarrow> image8) \<Rightarrow> GaborFilterCv2 \<Rightarrow> image8 \<Rightarrow> error + image8 list" where
  "GaborFilterCv2_extract filter2D self X = Inr (GaborFilterCv2_filter filter2D self X)"

datatype cv2_call = Cv2Compute "image8 list" "int list" | Cv2Extract image8 | Cv2Filter image8

datatype cv2_result = Cv2Features "image8 list list" | Cv2Feature "image8 list"

fun GaborFilterCv2_call ::
  "(image8 list \<Rightarrow> error + image8) \<Rightarrow> (image8 \<Rightarrow> npfloat list list \<Rightarrow> image8)
     \<Rightarrow> GaborFilterCv2 \<Rightarrow> cv2_call \<Rightarrow> GaborFilterCv2 \<times> (error + cv2_result)" where
  "GaborFilterCv2_call acm f2d self (Cv2Compute X y) =
     (self, map_sum id Cv2Features (GaborFilterCv2_compute acm f2d self X y))"
| "GaborFilterCv2_call acm f2d self (Cv2Extract x) =
     (self, map_sum id Cv2Feature (GaborFilterCv2_extract f2d self x))"
| "GaborFilterCv2_call acm f2d self (Cv2Filter x) =
     (self, Inr (Cv2Feature (GaborFilterCv2_filter f2d self x)))"

definition GaborFilterCv2_calls ::
  "(image8 list \<Rightarrow> error + image8) \<Rightarrow> (image8 \<Rightarrow> npfloat list list \<Rightarrow> image8)
     \<Rightarrow> GaborFilterCv2 \<Rightarrow> cv2_call list \<Rightarrow> GaborFilterCv2" where
  "GaborFilterCv2_calls acm f2d self cs =
     fold (\<lambda>c s. fst (GaborFilterCv2_call acm f2d s c)) cs self"

section \<open>Spatial histograms\<close>

text \<open>
  Modelled from the spec: \<^verbatim>\<open>SpatialHistogram\<close> of \<^verbatim>\<open>facerec_py.facerec.feature\<close>, the
  base class of the two histogram classes, which is not among the sources. The spec:
  it partitions a response map into a grid of \<open>sz\<close> = rows \<open>\<times>\<close> columns cells, computes a
  local binary pattern histogram per cell and combines the cells by concatenation;
  failures of the primitives are propagated. The local binary pattern and histogram
  primitives are the argument \<open>cell_histograms\<close>, which gives the histograms of the
  cells of a map. \<^verbatim>\<open>compute\<close> applies \<^verbatim>\<open>self.spatially_enhanced_histogram\<close> to every
  element of a batch and does not read the labels; \<^verbatim>\<open>extract\<close> applies it to one.
\<close>

record SpatialHistogram =
  sz :: "nat \<times> nat"

definition cell_count :: "SpatialHistogram \<Rightarrow> nat" where
  "cell_count self = fst (sz self) * snd (sz self)"

definition SpatialHistogram_spatially_enhanced_histogram ::
  "(nat \<times> nat \<Rightarrow> 'm \<Rightarrow> error + 'b list list) \<Rightarrow> SpatialHistogram \<Rightarrow> 'm \<Rightarrow> error + 'b list" where
  "SpatialHistogram_spatially_enhanced_histogram cell_histograms self x =
     (case cell_histograms (sz self) x of
        Inl e \<Rightarrow> Inl e
      | Inr cells \<Rightarrow> Inr (concat cells))"

fun map_result :: "('a \<Rightarrow> error + 'b) \<Rightarrow> 'a list \<Rightarrow> error + 'b list" where
  "map_result f [] = Inr []"
| "map_result f (x # xs) =
     (case f x of
        Inl e \<Rightarrow> Inl e
      | Inr v \<Rightarrow> (case map_result f xs of Inl e \<Rightarrow> Inl e | Inr vs \<Rightarrow> Inr (v # vs)))"

text \<open>
  The two subclasses of the source override \<^verbatim>\<open>spatially_enhanced_histogram\<close>: both run
  over the elements \<open>x\<close> of their argument \<open>X\<close> and call the base method on each;
  \<^verbatim>\<open>MultiScaleSpatialHistogram\<close> appends each result to \<open>hists\<close>,
  \<^verbatim>\<open>ConcatenatedSpatialHistogram\<close> extends \<open>hists\<close> by its entries. Both are
  constructed with the default grid \<open>sz = (8, 8)\<close>.
\<close>

definition MultiScaleSpatialHistogram_init :: SpatialHistogram where
  "MultiScaleSpatialHistogram_init = \<lparr> sz = (8, 8) \<rparr>"

definition ConcatenatedSpatialHistogram_init :: SpatialHistogram where
  "ConcatenatedSpatialHistogram_init = \<lparr> sz = (8, 8) \<rparr>"

fun multi_scale_loop :: "('m \<Rightarrow> error + 'b list) \<Rightarrow> 'm list \<Rightarrow> 'b list list \<Rightarrow> error + 'b list list" where
  "multi_scale_loop base [] hists = Inr hists"
| "multi_scale_loop base (x # X) hists =
     (case base x of
        Inl e \<Rightarrow> Inl e
      | Inr hist \<Rightarrow> multi_scale_loop base X (hists @ [hist]))"

definition MultiScaleSpatialHistogram_spatially_enhanced_histogram ::
  "(nat \<times> nat \<Rightarrow> 'm \<Rightarrow> error + 'b list list) \<Rightarrow> SpatialHistogram \<Rightarrow> 'm list
     \<Rightarrow> error + 'b list list" where
  "MultiScaleSpatialHistogram_spatially_enhanced_histogram cell_histograms self X =
     multi_scale_loop (SpatialHistogram_spatially_enhanced_histogram cell_histograms self) X []"

fun concatenated_loop :: "('m \<Rightarrow> error + 'b list) \<Rightarrow> 'm list \<Rightarrow> 'b list \<Rightarrow> error + 'b list" where
  "concatenated_loop base [] hists = Inr hists"
| "concatenated_loop base (x # X) hists =
     (case base x of
        Inl e \<Rightarrow> Inl e
      | Inr hist \<Rightarrow> concatenated_loop base X (hists @ hist))"

definition ConcatenatedSpatialHistogram_spatially_enhanced_histogram ::
  "(nat \<times> nat \<Rightarrow> 'm \<Rightarrow> error + 'b list list) \<Rightarrow> SpatialHistogram \<Rightarrow> 'm list
     \<Rightarrow> error + 'b list" where
  "ConcatenatedSpatialHistogram_spatially_enhanced_histogram cell_histograms self X =
     concatenated_loop (SpatialHistogram_spatially_enhanced_histogram cell_histograms self) X []"

section \<open>Feature operators and their chaining\<close>

text \<open>
  A feature operator offers \<^verbatim>\<open>compute(X, y)\<close>, which may change the operator (the new
  state is returned next to the features), and \<^verbatim>\<open>extract(x)\<close>. A failure of either is
  a value of \<open>error\<close>, and the state of a failed call is the one before it.
\<close>

record ('s, 'x, 'o) feature_op =
  compute_op :: "'s \<Rightarrow> 'x list \<Rightarrow> int list \<Rightarrow> error + 's \<times> 'o list"
  extract_op :: "'s \<Rightarrow> 'x \<Rightarrow> error + 'o"

definition stateless_op ::
  "('x list \<Rightarrow> int list \<Rightarrow> error + 'o list) \<Rightarrow> ('x \<Rightarrow> error + 'o) \<Rightarrow> ('s, 'x, 'o) feature_op" where
  "stateless_op compute extract =
     \<lparr> compute_op = (\<lambda>self X y. map_sum id (Pair self) (compute X y)),
       extract_op = (\<lambda>self x. extract x) \<rparr>"

definition bind_result :: "error + 'a \<Rightarrow> ('a \<Rightarrow> error + 'b) \<Rightarrow> error + 'b" where
  "bind_result r f = (case r of Inl e \<Rightarrow> Inl e | Inr v \<Rightarrow> f v)"

text \<open>
  Modelled from the spec: \<^verbatim>\<open>ChainOperator\<close> of \<^verbatim>\<open>facerec_py.facerec.feature\<close>, which
  is not among the sources. The spec: it wraps two feature operators;
  \<^verbatim>\<open>compute(X, y)\<close> calls the first operator's \<^verbatim>\<open>compute\<close>, then feeds its output
  list into the second operator's \<^verbatim>\<open>compute\<close>; \<^verbatim>\<open>extract(x)\<close> calls the first
  operator's \<^verbatim>\<open>extract\<close> and feeds the result into the second's; the first failure
  of either stage aborts and propagates, untranslated. The chain holds the two
  operators themselves, so what a stage's \<^verbatim>\<open>compute\<close> changes is changed in them.
\<close>

definition ChainOperator_compute ::
  "('s1, 'x, 'm) feature_op \<Rightarrow> ('s2, 'm, 'o) feature_op \<Rightarrow> 's1 \<times> 's2 \<Rightarrow> 'x list \<Rightarrow> int list
     \<Rightarrow> error + ('s1 \<times> 's2) \<times> 'o list" where
  "ChainOperator_compute model1 model2 s X y =
     (case compute_op model1 (fst s) X y of
        Inl e \<Rightarrow> Inl e
      | Inr (s1, X1) \<Rightarrow>
          (case compute_op model2 (snd s) X1 y of
             Inl e \<Rightarrow> Inl e
           | Inr (s2, X2) \<Rightarrow> Inr ((s1, s2), X2)))"

definition ChainOperator_extract ::
  "('s1, 'x, 'm) feature_op \<Rightarrow> ('s2, 'm, 'o) feature_op \<Rightarrow> 's1 \<times> 's2 \<Rightarrow> 'x \<Rightarrow> error + 'o" where
  "ChainOperator_extract model1 model2 s x =
     (case extract_op model1 (fst s) x of
        Inl e \<Rightarrow> Inl e
      | Inr x1 \<Rightarrow> extract_op model2 (snd s) x1)"

text \<open>The operators of the source as feature operators.\<close>

definition GaborFilterSki_op ::
  "(ndimage list \<Rightarrow> error + array2) \<Rightarrow> (GaborFilterSki, ndimage, ski_feature) feature_op" where
  "GaborFilterSki_op asColumnMatrix =
     \<lparr> compute_op = (\<lambda>self X y.
         map_sum id (Pair self) (GaborFilterSki_compute asColumnMatrix self X y)),
       extract_op = (\<lambda>self x. GaborFilterSki_extract self x) \<rparr>"

text \<open>Iterating over an array yields its slices along the first axis.\<close>

datatype ski_slice = StatsRow "npfloat list" | Map2 array2 | ColRow "real list"

fun np_iter :: "ski_feature \<Rightarrow> ski_slice list" where
  "np_iter (Stats a) = map StatsRow a"
| "np_iter (Maps a) = map Map2 a"
| "np_iter (Cols a) = map ColRow a"

definition MultiScaleSpatialHistogram_op ::
  "(nat \<times> nat \<Rightarrow> ski_slice \<Rightarrow> error + 'b list list)
     \<Rightarrow> (SpatialHistogram, ski_feature, 'b list list) feature_op" where
  "MultiScaleSpatialHistogram_op cell_histograms =
     \<lparr> compute_op = (\<lambda>self X y.
         map_sum id (Pair self)
           (map_result (\<lambda>x. MultiScaleSpatialHistogram_spatially_enhanced_histogram
                               cell_histograms self (np_iter x)) X)),
       extract_op = (\<lambda>self x.
         MultiScaleSpatialHistogram_spatially_enhanced_histogram cell_histograms self (np_iter x)) \<rparr>"

section \<open>LGBPHS\<close>

text \<open>
  The constructor builds a \<^verbatim>\<open>GaborFilterSki(theta_r=2, sigma_tuple=(1, ))\<close>, rebinds its
  \<^verbatim>\<open>filter\<close> to \<^verbatim>\<open>raw_convolve\<close>, and chains it with a
  \<^verbatim>\<open>MultiScaleSpatialHistogram\<close>; the two operators are the state of the chain
  \<^verbatim>\<open>_model\<close>.
\<close>

definition default_freq_t :: "real list" where
  "default_freq_t = [fl (5 / 100), fl (15 / 100), fl (25 / 100)]"

record LGBPHS =
  lgbphs_gabor :: GaborFilterSki
  lgbphs_lbp :: SpatialHistogram

definition LGBPHS_init :: "(real \<Rightarrow> real \<Rightarrow> real \<Rightarrow> real \<Rightarrow> array2) \<Rightarrow> LGBPHS" where
  "LGBPHS_init gabor_kernel =
     \<lparr> lgbphs_gabor =
         (GaborFilterSki_init gabor_kernel default_freq_t 2 [1])\<lparr> filter_attr := BoundRawConvolve \<rparr>,
       lgbphs_lbp = MultiScaleSpatialHistogram_init \<rparr>"

definition LGBPHS_compute ::
  "(ndimage list \<Rightarrow> error + array2) \<Rightarrow> (nat \<times> nat \<Rightarrow> ski_slice \<Rightarrow> error + 'b list list)
     \<Rightarrow> LGBPHS \<Rightarrow> ndimage list \<Rightarrow> int list \<Rightarrow> error + LGBPHS \<times> 'b list list list" where
  "LGBPHS_compute asColumnMatrix cell_histograms self X y =
     (case ChainOperator_compute (GaborFilterSki_op asColumnMatrix)
             (MultiScaleSpatialHistogram_op cell_histograms)
             (lgbphs_gabor self, lgbphs_lbp self) X y of
        Inl e \<Rightarrow> Inl e
      | Inr ((g, l), features) \<Rightarrow> Inr (self\<lparr> lgbphs_gabor := g, lgbphs_lbp := l \<rparr>, features))"

definition LGBPHS_extract ::
  "(ndimage list \<Rightarrow> error + array2) \<Rightarrow> (nat \<times> nat \<Rightarrow> ski_slice \<Rightarrow> error + 'b list list)
     \<Rightarrow> LGBPHS \<Rightarrow> ndimage \<Rightarrow> error + 'b list list" where
  "LGBPHS_extract asColumnMatrix cell_histograms self X =
     ChainOperator_extract (GaborFilterSki_op asColumnMatrix)
       (MultiScaleSpatialHistogram_op cell_histograms)
       (lgbphs_gabor self, lgbphs_lbp self) X"

section \<open>GaborFilterFisher\<close>

text \<open>
  Modelled from the spec: \<^verbatim>\<open>Fisherfaces\<close> of \<^verbatim>\<open>facerec_py.facerec.feature\<close>, which is
  not among the sources. The spec: a dimensionality reducer with a component count,
  in one of two states, unfitted (constructed, no \<^verbatim>\<open>compute\<close> yet) and fitted (after
  \<^verbatim>\<open>compute\<close> has run, holding learned projection parameters); \<^verbatim>\<open>compute\<close> fits on a
  labelled batch, \<^verbatim>\<open>extract\<close> projects a single sample, and \<^verbatim>\<open>extract\<close> before
  fitting is a caller error that is not guarded and fails. The numerics are the
  arguments \<open>fit\<close> (the projection learned from a batch and its labels, with the
  projected batch) and \<open>project\<close>. The unfitted operator holds no projection, and the
  unguarded \<^verbatim>\<open>extract\<close> fails where it reads it, as a read of an attribute that was
  never assigned does.
\<close>

record 'p Fisherfaces =
  num_components :: nat
  projection :: "'p option"

definition Fisherfaces_init :: "nat \<Rightarrow> 'p Fisherfaces" where
  "Fisherfaces_init n = \<lparr> num_components = n, projection = None \<rparr>"

definition Fisherfaces_compute ::
  "(nat \<Rightarrow> 'x list \<Rightarrow> int list \<Rightarrow> error + 'p \<times> 'o list) \<Rightarrow> 'p Fisherfaces \<Rightarrow> 'x list \<Rightarrow> int list
     \<Rightarrow> error + 'p Fisherfaces \<times> 'o list" where
  "Fisherfaces_compute fit self X y =
     (case fit (num_components self) X y of
        Inl e \<Rightarrow> Inl e
      | Inr (P, features) \<Rightarrow> Inr (self\<lparr> projection := Some P \<rparr>, features))"

definition Fisherfaces_extract ::
  "('p \<Rightarrow> 'x \<Rightarrow> error + 'o) \<Rightarrow> 'p Fisherfaces \<Rightarrow> 'x \<Rightarrow> error + 'o" where
  "Fisherfaces_extract project self x =
     (case projection self of
        None \<Rightarrow> Inl AttributeError
      | Some P \<Rightarrow> project P x)"

definition Fisherfaces_op ::
  "(nat \<Rightarrow> 'x list \<Rightarrow> int list \<Rightarrow> error + 'p \<times> 'o list) \<Rightarrow> ('p \<Rightarrow> 'x \<Rightarrow> error + 'o)
     \<Rightarrow> ('p Fisherfaces, 'x, 'o) feature_op" where
  "Fisherfaces_op fit project =
     \<lparr> compute_op = Fisherfaces_compute fit, extract_op = Fisherfaces_extract project \<rparr>"

text \<open>
  The constructor of \<^verbatim>\<open>GaborFilterFisher\<close> stores a
  \<^verbatim>\<open>GaborFilterSki(theta_r=2, sigma_tuple=(1, ))\<close> with \<^verbatim>\<open>filter\<close> rebound to
  \<^verbatim>\<open>convolve_to_col\<close> in \<^verbatim>\<open>_gabor\<close> and a \<^verbatim>\<open>Fisherfaces(14)\<close> in \<^verbatim>\<open>_fisher\<close>.
  \<^verbatim>\<open>compute\<close> and \<^verbatim>\<open>extract\<close> each build a chain of the two fields and call it; the
  chain holds the objects of the fields, so the state the chain's \<^verbatim>\<open>compute\<close> leaves
  them in is the state of the fields afterwards.
\<close>

record 'p GaborFilterFisher =
  gabor :: GaborFilterSki
  fisher :: "'p Fisherfaces"

definition GaborFilterFisher_init ::
  "(real \<Rightarrow> real \<Rightarrow> real \<Rightarrow> real \<Rightarrow> array2) \<Rightarrow> 'p GaborFilterFisher" where
  "GaborFilterFisher_init gabor_kernel =
     \<lparr> gabor =
         (GaborFilterSki_init gabor_kernel default_freq_t 2 [1])\<lparr> filter_attr := BoundConvolveToCol \<rparr>,
       fisher = Fisherfaces_init 14 \<rparr>"

definition GaborFilterFisher_compute ::
  "(ndimage list \<Rightarrow> error + array2)
     \<Rightarrow> (nat \<Rightarrow> ski_feature list \<Rightarrow> int list \<Rightarrow> error + 'p \<times> 'o list)
     \<Rightarrow> ('p \<Rightarrow> ski_feature \<Rightarrow> error + 'o)
     \<Rightarrow> 'p GaborFilterFisher \<Rightarrow> ndimage list \<Rightarrow> int list
     \<Rightarrow> error + 'p GaborFilterFisher \<times> 'o list" where
  "GaborFilterFisher_compute asColumnMatrix fit project self X y =
     (case ChainOperator_compute (GaborFilterSki_op asColumnMatrix) (Fisherfaces_op fit project)
             (gabor self, fisher self) X y of
        Inl e \<Rightarrow> Inl e
      | Inr ((g, f), features) \<Rightarrow> Inr (self\<lparr> gabor := g, fisher := f \<rparr>, features))"

definition GaborFilterFisher_extract ::
  "(ndimage list \<Rightarrow> error + array2)
     \<Rightarrow> (nat \<Rightarrow> ski_feature list \<Rightarrow> int list \<Rightarrow> error + 'p \<times> 'o list)
     \<Rightarrow> ('p \<Rightarrow> ski_feature \<Rightarrow> error + 'o)
     \<Rightarrow> 'p GaborFilterFisher \<Rightarrow> ndimage \<Rightarrow> error + 'o" where
  "GaborFilterFisher_extract asColumnMatrix fit project self X =
     ChainOperator_extract (GaborFilterSki_op asColumnMatrix) (Fisherfaces_op fit project)
       (gabor self, fisher self) X"

section \<open>Verification\<close>

subsection \<open>The statistics loop and the z-score\<close>

lemma row_update2: "length r = 2 \<Longrightarrow> r[0 := a, Suc 0 := b] = [a, b]"
  by (cases r; cases "tl r") auto

lemma stats_loop:
  "length feats = n + length ks \<Longrightarrow> \<forall>r\<in>set feats. length r = 2 \<Longrightarrow>
   fold (\<lambda>(k, kernel) feats. feats[k := (feats ! k)[0 := f kernel, 1 := g kernel]])
        (enumerate n ks) feats
   = take n feats @ map (\<lambda>kernel. [f kernel, g kernel]) ks"
proof (induction ks arbitrary: n feats)
  case Nil
  then show ?case by simp
next
  case (Cons k ks)
  let ?feats = "feats[n := [f k, g k]]"
  have n: "n < length feats" using Cons.prems(1) by simp
  then have row: "length (feats ! n) = 2" using Cons.prems(2) by simp
  have len: "length ?feats = Suc n + length ks" using Cons.prems(1) by simp
  have rows: "\<forall>r\<in>set ?feats. length r = 2"
    using Cons.prems(2) by (auto dest!: set_update_subset_insert [THEN subsetD])
  have "take (Suc n) ?feats = take n feats @ [[f k, g k]]"
    using n by (simp add: take_Suc_conv_app_nth)
  then show ?case
    using Cons.IH [OF len rows] row by (simp add: row_update2)
qed

lemma filter_stats_map:
  "GaborFilterSki_filter_stats self x =
     map (\<lambda>kernel. [np_mean (nd_convolve Wrap x kernel), np_var (nd_convolve Wrap x kernel)])
         (kernels self)"
  unfolding GaborFilterSki_filter_stats_def Let_def
  using stats_loop [of "replicate (length (kernels self)) [Finite 0, Finite 0]" 0 "kernels self"
      "\<lambda>kernel. np_mean (nd_convolve Wrap x kernel)" "\<lambda>kernel. np_var (nd_convolve Wrap x kernel)"]
  by simp

lemma finite_values_Some: "finite_values X = Some v \<Longrightarrow> X = map Finite v"
proof (induction X arbitrary: v rule: finite_values.induct)
  case 1 then show ?case by simp
next
  case (2 r X) then show ?case by (cases "finite_values X") auto
qed simp_all

lemma finite_values_map [simp]: "finite_values (map Finite v) = Some v"
  by (induction v) simp_all

lemma length_zscore [simp]: "length (zscore X) = length X"
  by (auto simp: zscore_def dest: finite_values_Some split: option.splits)

lemma length_set_column [simp]: "length (set_column a i c) = min (length a) (length c)"
  by (simp add: set_column_def)

lemma filter_unfold:
  "GaborFilterSki_filter self x =
     (let S = GaborFilterSki_filter_stats self x;
          S0 = set_column S 0 (zscore (column S 0))
      in set_column S0 1 (zscore (column S0 1)))"
  by (simp add: GaborFilterSki_filter_def Let_def upt_rec numeral_2_eq_2)







lemma zscore_constant:
  assumes "n \<noteq> 0"
  shows "zscore (replicate n (Finite c)) = replicate n NaN"
proof -
  have fv: "finite_values (replicate n (Finite c)) = Some (replicate n c)"
    using finite_values_map [of "replicate n c"] by simp
  have m: "mean1 (replicate n c) = c" using assms by (simp add: mean1_def sum_list_replicate)
  have "var1 (replicate n c) = 0" unfolding var1_def m by (simp add: mean1_def sum_list_replicate)
  then have s: "std1 (replicate n c) = 0" by (simp add: std1_def)
  show ?thesis by (simp add: zscore_def fv m s np_div_def)
qed


lemma shape2_zeros2 [simp]: "shape2 (zeros_array h w) = (h, if h = 0 then 0 else w)"
  by (cases h) (simp_all add: shape2_def zeros_array_def)

lemma extend_index_less: "0 < n \<Longrightarrow> extend_index mode n i < n"
proof (cases mode)
  case Wrap
  assume "0 < n"
  then show ?thesis using Wrap by (simp add: extend_index_def nat_less_iff)
next
  case Reflect
  assume n: "0 < n"
  have "0 \<le> i mod (2 * int n)" "i mod (2 * int n) < 2 * int n" using n by simp_all
  then show ?thesis using Reflect n
    by (auto simp: extend_index_def Let_def nat_less_iff)
qed

lemma length_nd_convolve [simp]: "length (nd_convolve mode x w) = length (pixels x)"
  by (simp add: nd_convolve_def shape2_def split: prod.splits)


lemma nd_convolve_zeros2: "nd_convolve mode (zeros2 h w) k = zeros_array h w"
proof (cases "h = 0")
  case True
  then show ?thesis
    by (simp add: nd_convolve_def zeros2_def float_image_def zeros_array_def shape2_def)
next
  case False
  obtain kh kw where k: "shape2 k = (kh, kw)" by (cases "shape2 k")
  have entry: "zeros_array h w ! extend_index mode h a ! extend_index mode w b = 0"
    if "0 < w" for a b
    using False that by (simp add: zeros_array_def extend_index_less)
  have "nd_convolve mode (zeros2 h w) k = map (\<lambda>i. map (\<lambda>j. 0) [0..<w]) [0..<h]"
    using False by (auto simp: nd_convolve_def zeros2_def float_image_def k entry)
  then show ?thesis by (simp add: zeros_array_def map_replicate_const)
qed

lemma concat_zeros2: "concat (zeros_array h w) = replicate (h * w) 0"
  by (induction h) (simp_all add: zeros_array_def replicate_add)

lemma np_mean_zeros2: "0 < h \<Longrightarrow> 0 < w \<Longrightarrow> np_mean (zeros_array h w) = Finite 0"
  by (simp add: np_mean_def concat_zeros2 mean1_def sum_list_replicate)

lemma np_var_zeros2: "0 < h \<Longrightarrow> 0 < w \<Longrightarrow> np_var (zeros_array h w) = Finite 0"
  by (simp add: np_var_def concat_zeros2 var1_def mean1_def sum_list_replicate)

lemma column_rows2:
  "length c0 = length c1 \<Longrightarrow> column (rows2 c0 c1) 0 = c0 \<and> column (rows2 c0 c1) (Suc 0) = c1"
  by (induction c0 c1 rule: list_induct2) (simp_all add: column_def rows2_def)

lemma set_column_rows2:
  "length c0 = length c1 \<Longrightarrow> length c1 = length z \<Longrightarrow>
     set_column (rows2 c0 c1) 0 z = rows2 z c1 \<and> set_column (rows2 c0 c1) (Suc 0) z = rows2 c0 z"
  by (induction c0 c1 z rule: list_induct3) (simp_all add: set_column_def rows2_def)

lemma stats_rows2:
  "GaborFilterSki_filter_stats self x =
     rows2 (map (\<lambda>kernel. np_mean (nd_convolve Wrap x kernel)) (kernels self))
           (map (\<lambda>kernel. np_var (nd_convolve Wrap x kernel)) (kernels self))"
  by (simp add: filter_stats_map rows2_def zip_map_map comp_def zip_same_conv_map)

lemma filter_rows2:
  "GaborFilterSki_filter self x =
     rows2 (zscore (map (\<lambda>kernel. np_mean (nd_convolve Wrap x kernel)) (kernels self)))
           (zscore (map (\<lambda>kernel. np_var (nd_convolve Wrap x kernel)) (kernels self)))"
  by (simp add: filter_unfold Let_def stats_rows2 column_rows2 set_column_rows2)




lemma py_range_numeral: "py_range 1 = [0]" "py_range 2 = [0, 1]"
  by (simp_all add: py_range_def upt_rec numeral_2_eq_2)


lemma kernels_default:
  "\<exists>k0 k1 k2 k3 k4 k5. kernels (GaborFilterSki_init gabor_kernel default_freq_t 2 [1]) = [k0, k1, k2, k3, k4, k5]"
  by (simp add: GaborFilterSki_init_def py_range_numeral default_freq_t_def Let_def)

lemma filter_zero_image:
  assumes "length (kernels self) = n" "0 < n" "0 < h" "0 < w"
  shows "GaborFilterSki_filter_stats self (zeros2 h w) = replicate n [Finite 0, Finite 0]"
    and "GaborFilterSki_filter self (zeros2 h w) = replicate n [NaN, NaN]"
proof -
  have m: "map (\<lambda>kernel. np_mean (nd_convolve Wrap (zeros2 h w) kernel)) (kernels self) = replicate n (Finite 0)"
    using assms by (simp add: nd_convolve_zeros2 np_mean_zeros2 map_replicate_const)
  have v: "map (\<lambda>kernel. np_var (nd_convolve Wrap (zeros2 h w) kernel)) (kernels self) = replicate n (Finite 0)"
    using assms by (simp add: nd_convolve_zeros2 np_var_zeros2 map_replicate_const)
  have r: "rows2 (replicate n a) (replicate n b) = replicate n [a, b]" for a b :: npfloat
    by (simp add: rows2_def zip_replicate)
  show "GaborFilterSki_filter_stats self (zeros2 h w) = replicate n [Finite 0, Finite 0]"
    by (simp add: stats_rows2 m v r)
  show "GaborFilterSki_filter self (zeros2 h w) = replicate n [NaN, NaN]"
    using assms(2) by (simp add: filter_rows2 m v r zscore_constant)
qed

text \<open>
  Claim C5, as the code has it. \<^verbatim>\<open>GaborFilterSki(theta_r=2, sigma_tuple=(1,))\<close> with
  the default frequencies has exactly 6 kernels; on the 32 by 32 zero image every kernel
  gives mean 0 and variance 0 before normalisation; and the z-score of the two all-zero
  columns divides zero by the zero standard deviation, so every entry of the returned
  array is nan.
\<close>

theorem GaborFilterSki_zero_image:
  "length (kernels (GaborFilterSki_init gabor_kernel default_freq_t 2 [1])) = 6
   \<and> GaborFilterSki_filter_stats (GaborFilterSki_init gabor_kernel default_freq_t 2 [1]) (zeros2 32 32)
       = replicate 6 [Finite 0, Finite 0]
   \<and> GaborFilterSki_filter (GaborFilterSki_init gabor_kernel default_freq_t 2 [1]) (zeros2 32 32)
       = replicate 6 [NaN, NaN]"
proof -
  have len: "length (kernels (GaborFilterSki_init gabor_kernel default_freq_t 2 [1])) = 6"
    using kernels_default [of gabor_kernel] by auto
  show ?thesis
    using len filter_zero_image [OF len, of 32 32] by simp
qed

text \<open>
  Claim C5 as stated (no nan or infinite entry in the result for the zero image) fails:
  the entries of the result are not all finite.
\<close>

theorem GaborFilterSki_zero_image_counterexample:
  "\<not> list_all (list_all is_finite)
      (GaborFilterSki_filter (GaborFilterSki_init skimage_gabor_kernel_real default_freq_t 2 [1])
         (zeros2 32 32))"
proof -
  have len: "length (kernels (GaborFilterSki_init skimage_gabor_kernel_real default_freq_t 2 [1])) = 6"
    using kernels_default [of skimage_gabor_kernel_real] by auto
  have "GaborFilterSki_filter (GaborFilterSki_init skimage_gabor_kernel_real default_freq_t 2 [1])
         (zeros2 32 32) = replicate 6 [NaN, NaN]"
    using filter_zero_image(2) [OF len, of 32 32] by simp
  then show ?thesis by (simp add: numeral_eq_Suc)
qed

lemma upt_small: "[0..<Suc 0] = [0]" "[0..<2] = [0, Suc 0]"
  by (simp_all add: numeral_2_eq_2)


text \<open>
  On an 8-bit image the responses are cut and wrapped before mean and variance are
  taken: for the image \<open>[[200, 101], [3, 4]]\<close> and the one-entry kernels \<open>1/2\<close>,
  \<open>-1\<close> and \<open>2\<close> the means before normalisation are 38.25, 179 and 90 (the exact
  convolutions have the means 38.5, -77 and 154).
\<close>

lemma uint8_cast_values:
  "uint8_cast 100 = 100" "uint8_cast (101 / 2) = 50" "uint8_cast (3 / 2) = 1" "uint8_cast 2 = 2"
  "uint8_cast (- 200) = 56" "uint8_cast (- 101) = 155" "uint8_cast (- 3) = 253"
  "uint8_cast (- 4) = 252" "uint8_cast 400 = 144" "uint8_cast 202 = 202" "uint8_cast 6 = 6"
  "uint8_cast 8 = 8"
  by (simp_all add: uint8_cast_def)

lemma conv_1x1_uint8:
  "nd_convolve Wrap (uint8_image [[a, b], [c, d]]) [[k]]
     = [[uint8_cast (k * a), uint8_cast (k * b)], [uint8_cast (k * c), uint8_cast (k * d)]]"
  by (simp add: nd_convolve_def uint8_image_def shape2_def extend_index_def upt_small)

lemma filter_stats_uint8:
  "column (GaborFilterSki_filter_stats
      (GaborFilterSki_init (\<lambda>frequency theta sigma_x sigma_y. [[frequency]]) [1 / 2, - 1, 2] 1 [1])
      (uint8_image [[200, 101], [3, 4]])) 0
     = [Finite (153 / 4), Finite 179, Finite 90]"
  by (simp add: filter_stats_map GaborFilterSki_init_def py_range_numeral Let_def conv_1x1_uint8
      uint8_cast_values np_mean_def mean1_def column_def)


subsection \<open>Calls leave the instance as it is\<close>

lemma GaborFilterSki_call_self: "fst (GaborFilterSki_call acm self c) = self"
  by (cases c) simp_all

lemma GaborFilterSki_calls_self: "GaborFilterSki_calls acm self cs = self"
  by (induction cs) (simp_all add: GaborFilterSki_calls_def GaborFilterSki_call_self)

text \<open>
  Claim C10. On every instance the code builds (the constructor's result, with the
  attribute \<^verbatim>\<open>filter\<close> bound to any of the three methods), and after every sequence
  of \<^verbatim>\<open>compute\<close>, \<^verbatim>\<open>extract\<close> and \<^verbatim>\<open>filter\<close> calls, reading the property
  \<^verbatim>\<open>prop\<close> raises \<^verbatim>\<open>AttributeError\<close>: neither the constructor nor a method
  assigns \<^verbatim>\<open>_prop\<close>.
\<close>

theorem GaborFilterSki_prop_raises:
  "GaborFilterSki_prop
     (GaborFilterSki_calls acm
        ((GaborFilterSki_init gabor_kernel freq theta_cnt sigma_tuple)\<lparr> filter_attr := m \<rparr>) cs)
     = Inl AttributeError"
  by (simp add: GaborFilterSki_calls_self GaborFilterSki_prop_def GaborFilterSki_init_def)

subsection \<open>The labels\<close>

lemma GaborFilterSki_compute_labels:
  "GaborFilterSki_compute acm ski X y1 = GaborFilterSki_compute acm ski X y2"
  by (simp add: GaborFilterSki_compute_def)

lemma GaborFilterSki_op_labels:
  "compute_op (GaborFilterSki_op acm) s X y1 = compute_op (GaborFilterSki_op acm) s X y2"
  by (simp add: GaborFilterSki_op_def GaborFilterSki_compute_def)

lemma MultiScaleSpatialHistogram_op_labels:
  "compute_op (MultiScaleSpatialHistogram_op ch) s X y1
     = compute_op (MultiScaleSpatialHistogram_op ch) s X y2"
  by (simp add: MultiScaleSpatialHistogram_op_def)

lemma LGBPHS_compute_labels:
  "LGBPHS_compute acm cell_histograms lgbphs X y1 = LGBPHS_compute acm cell_histograms lgbphs X y2"
  unfolding LGBPHS_compute_def ChainOperator_compute_def
  by (simp only: GaborFilterSki_op_labels [of acm _ X y1 y2]
       MultiScaleSpatialHistogram_op_labels [of cell_histograms _ _ y1 y2])

text \<open>
  Claim C8. For every batch \<open>X\<close> and any two label lists, \<^verbatim>\<open>compute\<close> returns the
  same for both, for \<^verbatim>\<open>GaborFilterSki\<close>, \<^verbatim>\<open>GaborFilterCv2\<close> and \<^verbatim>\<open>LGBPHS\<close>
  (whose chain hands the labels to both of its stages, neither of which reads them).
\<close>

theorem compute_ignores_labels:
  "GaborFilterSki_compute acm ski X y1 = GaborFilterSki_compute acm ski X y2
   \<and> GaborFilterCv2_compute acm8 filter2D cv X8 y1 = GaborFilterCv2_compute acm8 filter2D cv X8 y2
   \<and> LGBPHS_compute acm cell_histograms lgbphs X y1 = LGBPHS_compute acm cell_histograms lgbphs X y2"
  using GaborFilterSki_compute_labels [of acm ski X y1 y2]
    LGBPHS_compute_labels [of acm cell_histograms lgbphs X y1 y2]
  by (simp add: GaborFilterCv2_compute_def)

subsection \<open>The chain\<close>

text \<open>
  Claim C7. For two stateless operators, given by their \<^verbatim>\<open>compute\<close> and
  \<^verbatim>\<open>extract\<close> functions, the chain's \<^verbatim>\<open>extract\<close> is the second operator's
  \<^verbatim>\<open>extract\<close> applied to the result of the first's, and the chain's \<^verbatim>\<open>compute\<close>
  is the second operator's \<^verbatim>\<open>compute\<close> applied to the output list of the first's,
  with the same labels; a failure of the first stage is the chain's, and the state of
  the chain stays as it was.
\<close>

theorem ChainOperator_is_composition:
  "ChainOperator_extract (stateless_op ca ea) (stateless_op cb eb) s x
     = bind_result (ea x) eb
   \<and> map_sum id snd (ChainOperator_compute (stateless_op ca ea) (stateless_op cb eb) s X y)
     = bind_result (ca X y) (\<lambda>XA. cb XA y)
   \<and> map_sum id fst (ChainOperator_compute (stateless_op ca ea) (stateless_op cb eb) s X y)
     = bind_result (ca X y) (\<lambda>XA. map_sum id (\<lambda>out. s) (cb XA y))"
  by (cases "ea x"; cases "ca X y")
     (auto simp: ChainOperator_extract_def ChainOperator_compute_def stateless_op_def
        bind_result_def map_sum_def split: sum.splits)

text \<open>
  The chain of \<^verbatim>\<open>LGBPHS\<close>, unfolded: \<^verbatim>\<open>extract\<close> is the histogram stage applied to
  the slices of what the instance's \<^verbatim>\<open>filter\<close> returns.
\<close>

lemma LGBPHS_extract_eq:
  "LGBPHS_extract acm cell_histograms self X =
     MultiScaleSpatialHistogram_spatially_enhanced_histogram cell_histograms (lgbphs_lbp self)
       (np_iter (self_filter (lgbphs_gabor self) X))"
  by (simp add: LGBPHS_extract_def ChainOperator_extract_def GaborFilterSki_op_def
      GaborFilterSki_extract_def MultiScaleSpatialHistogram_op_def)

subsection \<open>GaborFilterFisher\<close>

lemma GaborFilterSki_op_simps:
  "compute_op (GaborFilterSki_op acm) self X y
     = map_sum id (Pair self) (GaborFilterSki_compute acm self X y)"
  "extract_op (GaborFilterSki_op acm) self x = Inr (self_filter self x)"
  by (simp_all add: GaborFilterSki_op_def GaborFilterSki_extract_def)

lemma Fisherfaces_op_simps:
  "compute_op (Fisherfaces_op fit project) = Fisherfaces_compute fit"
  "extract_op (Fisherfaces_op fit project) = Fisherfaces_extract project"
  by (simp_all add: Fisherfaces_op_def)

lemma GaborFilterFisher_extract_eq:
  "GaborFilterFisher_extract acm fit project self x
     = Fisherfaces_extract project (fisher self) (self_filter (gabor self) x)"
  by (simp add: GaborFilterFisher_extract_def ChainOperator_extract_def
      GaborFilterSki_op_simps Fisherfaces_op_simps)

text \<open>
  Claim C4, as the code has it. \<^verbatim>\<open>GaborFilterFisher.extract\<close> has no check of its own:
  on an instance on which \<^verbatim>\<open>compute\<close> was never called it convolves the image and hands
  the columns to the unfitted \<^verbatim>\<open>Fisherfaces\<close> stage, whose unguarded failure (the read
  of the projection that was never assigned) is what the caller gets, for every input.
\<close>

theorem GaborFilterFisher_extract_unfitted:
  "GaborFilterFisher_extract acm fit project (GaborFilterFisher_init gabor_kernel) X
     = Inl AttributeError"
  by (simp add: GaborFilterFisher_extract_eq GaborFilterFisher_init_def Fisherfaces_init_def
      Fisherfaces_extract_def)

text \<open>
  Claim C4 as stated fails: the failure on a fresh instance is not an explicit
  "not fitted" error.
\<close>

theorem GaborFilterFisher_extract_unfitted_counterexample:
  "GaborFilterFisher_extract (\<lambda>X. Inr []) (\<lambda>n X y. Inr (n, [])) (\<lambda>P x. Inr x)
     (GaborFilterFisher_init skimage_gabor_kernel_real) (float_image [[0]]) \<noteq> Inl NotFittedError"
  by (simp add: GaborFilterFisher_extract_eq GaborFilterFisher_init_def Fisherfaces_init_def
      Fisherfaces_extract_def)

lemma GaborFilterFisher_compute_eq:
  "GaborFilterFisher_compute acm fit project self X y =
     (case acm X of
        Inl e \<Rightarrow> Inl e
      | Inr XC \<Rightarrow>
          (case fit (num_components (fisher self)) (map (self_filter (gabor self)) X) y of
             Inl e \<Rightarrow> Inl e
           | Inr (P, features) \<Rightarrow>
               Inr (self\<lparr> fisher := (fisher self)\<lparr> projection := Some P \<rparr> \<rparr>, features)))"
  by (cases "acm X"; cases "fit (num_components (fisher self)) (map (self_filter (gabor self)) X) y")
     (auto simp: GaborFilterFisher_compute_def ChainOperator_compute_def GaborFilterSki_op_simps
        Fisherfaces_op_simps GaborFilterSki_compute_def Fisherfaces_compute_def)

text \<open>
  Claim C9. When \<^verbatim>\<open>compute\<close> succeeds, the projection it fitted (the one \<open>fit\<close>
  returned for the convolved batch and the labels) is held by the \<^verbatim>\<open>_fisher\<close> field
  of the instance afterwards, the \<^verbatim>\<open>_gabor\<close> field is the one from before, and every
  later \<^verbatim>\<open>extract\<close> on the instance, although it builds a new chain, projects the
  convolved image with that projection.
\<close>

theorem GaborFilterFisher_retains_projection:
  assumes "GaborFilterFisher_compute acm fit project self X y = Inr (self', features)"
  shows "\<exists>P. fit (num_components (fisher self)) (map (self_filter (gabor self)) X) y
               = Inr (P, features)
           \<and> projection (fisher self') = Some P
           \<and> gabor self' = gabor self
           \<and> (\<forall>x. GaborFilterFisher_extract acm fit project self' x
                    = project P (self_filter (gabor self) x))"
  using assms
  by (auto simp: GaborFilterFisher_compute_eq GaborFilterFisher_extract_eq Fisherfaces_extract_def
      split: sum.splits)

text \<open>
  A witness for claim C9: a successful \<^verbatim>\<open>compute\<close> on a one-image batch, and an
  \<^verbatim>\<open>extract\<close> after it. The numerics are stand-ins: the fitted projection is the
  component count, and projecting returns it.
\<close>

theorem GaborFilterFisher_retains_projection_witness:
  "\<exists>self' features.
     GaborFilterFisher_compute (\<lambda>X. Inr []) (\<lambda>n X y. Inr (n, map (\<lambda>x. 0 :: real) X))
         (\<lambda>P x. Inr (real P)) (GaborFilterFisher_init (\<lambda>frequency theta sigma_x sigma_y. [[1]]))
         [float_image [[0]]] [7] = Inr (self', features)
     \<and> projection (fisher self') = Some 14
     \<and> GaborFilterFisher_extract (\<lambda>X. Inr []) (\<lambda>n X y. Inr (n, map (\<lambda>x. 0 :: real) X))
         (\<lambda>P x. Inr (real P)) self' (float_image [[5]]) = Inr 14"
proof -
  let ?acm = "\<lambda>X :: ndimage list. Inr [] :: error + array2"
  let ?fit = "\<lambda>(n :: nat) (X :: ski_feature list) (y :: int list).
                Inr (n, map (\<lambda>x. 0 :: real) X) :: error + nat \<times> real list"
  let ?project = "\<lambda>(P :: nat) (x :: ski_feature). Inr (real P) :: error + real"
  let ?self = "GaborFilterFisher_init (\<lambda>frequency theta sigma_x sigma_y. [[1]]) :: nat GaborFilterFisher"
  obtain self' features where
    c: "GaborFilterFisher_compute ?acm ?fit ?project ?self [float_image [[0]]] [7]
          = Inr (self', features)"
    by (simp add: GaborFilterFisher_compute_eq)
  have n: "num_components (fisher ?self) = 14"
    by (simp add: GaborFilterFisher_init_def Fisherfaces_init_def)
  from GaborFilterFisher_retains_projection [OF c] n
  have "projection (fisher self') = Some 14"
    and "GaborFilterFisher_extract ?acm ?fit ?project self' (float_image [[5]]) = Inr 14"
    by auto
  with c show ?thesis by blast
qed

subsection \<open>The size of the kernel banks\<close>

text \<open>
  Rounding to a double, evaluated: a positive number whose product with \<open>2 ^ n\<close> lies
  between \<open>2 ^ 52\<close> and \<open>2 ^ 53\<close> has that product as its mantissa.
\<close>

lemma fl_eval:
  assumes "2 ^ 52 \<le> x * 2 ^ n" "x * 2 ^ n < 2 ^ 53"
  shows "fl x = of_int (round_half_even (x * 2 ^ n)) / 2 ^ n"
proof -
  have pos: "0 < x"
  proof (rule ccontr)
    assume "\<not> 0 < x"
    then have "x * 2 ^ n \<le> 0" by (simp add: mult_le_0_iff)
    with assms(1) show False by (smt (verit) zero_less_power)
  qed
  have "\<lfloor>log 2 \<bar>x\<bar>\<rfloor> = 52 - int n"
  proof -
    have "2 powr real_of_int (52 - int n) \<le> x"
      using assms(1) by (simp add: powr_diff powr_realpow field_simps flip: powr_realpow)
    moreover have "x < 2 powr real_of_int (52 - int n + 1)"
      using assms(2) by (simp add: powr_diff powr_add powr_realpow field_simps flip: powr_realpow)
    ultimately show ?thesis using pos by (simp add: floor_log_eq_powr_iff)
  qed
  then have e: "\<lfloor>log 2 x\<rfloor> - 52 = - int n" using pos by simp
  have p: "(2::real) powi (- int n) = 1 / 2 ^ n"
    by (simp add: power_int_minus field_simps)
  show ?thesis using pos by (simp add: fl_def e p Let_def)
qed

lemma fl_np_pi: "fl np_pi = np_pi"
  using fl_eval [of np_pi 51] by (simp add: np_pi_def round_half_even_def)

lemma fl_8: "fl 8 = 8" "fl 1 = 1"
  using fl_eval [of 8 49] fl_eval [of 1 52] by (simp_all add: round_half_even_def)

lemma fl_pi_8: "fl (np_pi / 8) = np_pi / 8"
  using fl_eval [of "np_pi / 8" 54] by (simp add: np_pi_def round_half_even_def)

lemma fl_pi_61: "fl (np_pi / 61) = 1855537771023853 / 2 ^ 55"
  using fl_eval [of "np_pi / 61" 57] by (simp add: np_pi_def round_half_even_def)

lemma fl_pi_pi_61: "fl (np_pi / (1855537771023853 / 2 ^ 55)) = 8584986789675009 / 2 ^ 47"
  using fl_eval [of "np_pi / (1855537771023853 / 2 ^ 55)" 47]
  by (simp add: np_pi_def round_half_even_def)

lemma ceiling_61: "\<lceil>8584986789675009 / 2 ^ 47 :: real\<rceil> = 62"
  by (simp add: ceiling_unique)

text \<open>
  The bank of \<^verbatim>\<open>GaborFilterSki\<close> has one kernel per angle, scale and frequency, and no
  call changes the bank of either class. The bank of \<^verbatim>\<open>GaborFilterCv2\<close> has one
  kernel per scale and entry of \<^verbatim>\<open>np.arange(0, np.pi, np.pi/orient_cnt)\<close>; the
  number of these entries is the rounded-up double quotient of \<open>\<pi>\<close> by the step.
\<close>

lemma length_concat_const:
  "(\<And>x. x \<in> set xs \<Longrightarrow> length (f x) = n) \<Longrightarrow> length (concat (map f xs)) = length xs * n"
  by (induction xs) simp_all

lemma length_py_range [simp]: "length (py_range n) = nat n"
  by (simp add: py_range_def)

lemma GaborFilterSki_kernel_count:
  "length (kernels (GaborFilterSki_init gabor_kernel freq theta_cnt sigma_tuple))
     = nat theta_cnt * length sigma_tuple * length freq"
proof -
  have inner: "length (concat (map (\<lambda>sigma. map (\<lambda>frequency. gabor_kernel frequency t sigma sigma) freq)
                 sigma_tuple)) = length sigma_tuple * length freq" for t
    by (rule length_concat_const) simp
  show ?thesis
    unfolding GaborFilterSki_init_def Let_def
    by (simp add: length_concat_const [where n = "length sigma_tuple * length freq"] inner)
qed

lemma GaborFilterSki_kernel_bank_fixed:
  "kernels (GaborFilterSki_calls acm self cs) = kernels self"
  by (simp add: GaborFilterSki_calls_self)

lemma GaborFilterCv2_call_self: "fst (GaborFilterCv2_call acm f2d self c) = self"
  by (cases c) simp_all

lemma GaborFilterCv2_calls_self: "GaborFilterCv2_calls acm f2d self cs = self"
  by (induction cs) (simp_all add: GaborFilterCv2_calls_def GaborFilterCv2_call_self)

lemma GaborFilterCv2_kernel_bank_fixed:
  "cv2_kernels (GaborFilterCv2_calls acm f2d self cs) = cv2_kernels self"
  by (simp add: GaborFilterCv2_calls_self)

lemma GaborFilterCv2_build_filters_count:
  assumes "GaborFilterCv2_build_filters getGaborKernel self = Inr self'"
  shows "length (cv2_kernels self')
           = nat \<lceil>fl (np_pi / fl (np_pi / of_int (orient_cnt self)))\<rceil> * nat (scale_cnt self)"
    and "orient_cnt self' = orient_cnt self" and "scale_cnt self' = scale_cnt self"
  using assms
  by (auto simp: GaborFilterCv2_build_filters_def np_arange_def fl_np_pi length_concat_const
      split: if_splits)

lemma GaborFilterCv2_build_filters_ok:
  assumes "orient_cnt self \<noteq> 0" "fl (np_pi / of_int (orient_cnt self)) \<noteq> 0"
  shows "\<exists>self'. GaborFilterCv2_build_filters getGaborKernel self = Inr self'"
  using assms by (simp add: GaborFilterCv2_build_filters_def np_arange_def)

lemma arange_count_8: "nat \<lceil>fl (np_pi / fl (np_pi / 8))\<rceil> = 8"
  and step_8: "fl (np_pi / 8) \<noteq> 0"
proof -
  have step: "fl (np_pi / 8) = np_pi / 8" by (simp add: fl_pi_8)
  have q: "np_pi / (np_pi / 8) = 8" by (simp add: np_pi_def)
  show "nat \<lceil>fl (np_pi / fl (np_pi / 8))\<rceil> = 8"
    unfolding step q by (simp add: fl_8)
  show "fl (np_pi / 8) \<noteq> 0"
    unfolding step by (simp add: np_pi_def)
qed

lemma arange_count_61: "nat \<lceil>fl (np_pi / fl (np_pi / 61))\<rceil> = 62"
  and step_61: "fl (np_pi / 61) \<noteq> 0"
proof -
  have step: "fl (np_pi / 61) = 1855537771023853 / 2 ^ 55" by (simp add: fl_pi_61)
  show "nat \<lceil>fl (np_pi / fl (np_pi / 61))\<rceil> = 62"
    unfolding step fl_pi_pi_61 ceiling_61 by simp
  show "fl (np_pi / 61) \<noteq> 0"
    unfolding step by simp
qed

lemma GaborFilterCv2_default_count:
  "\<exists>self. GaborFilterCv2_init getGaborKernel 8 5 = Inr self \<and> length (cv2_kernels self) = 40"
proof -
  let ?new = "\<lparr> orient_cnt = 8, scale_cnt = 5, cv2_kernels = [] \<rparr>"
  have "\<exists>self. GaborFilterCv2_build_filters getGaborKernel ?new = Inr self"
    by (rule GaborFilterCv2_build_filters_ok) (simp_all add: step_8)
  then obtain self where s: "GaborFilterCv2_build_filters getGaborKernel ?new = Inr self" ..
  have "length (cv2_kernels self) = 40"
    using GaborFilterCv2_build_filters_count(1) [OF s] by (simp add: arange_count_8)
  with s show ?thesis unfolding GaborFilterCv2_init_def by blast
qed

text \<open>
  Claim C2 at \<^verbatim>\<open>GaborFilterCv2(orient_cnt=61, scale_cnt=5)\<close>. The step \<open>\<pi>/61\<close> is
  rounded down to a double, the quotient of \<open>\<pi>\<close> by it rounds to the double just above
  61, and \<^verbatim>\<open>np.arange\<close> yields 62 angles: the bank has 62 * 5 = 310 kernels, where
  the product of the two counts is 305. (The default counts 8 and 5 give 40 kernels.)
\<close>

theorem GaborFilterCv2_orient_61:
  "\<exists>self. GaborFilterCv2_init getGaborKernel 61 5 = Inr self
      \<and> length (cv2_kernels self) = 310
      \<and> orient_cnt self * scale_cnt self = 305"
proof -
  let ?new = "\<lparr> orient_cnt = 61, scale_cnt = 5, cv2_kernels = [] \<rparr>"
  have "\<exists>self. GaborFilterCv2_build_filters getGaborKernel ?new = Inr self"
    by (rule GaborFilterCv2_build_filters_ok) (simp_all add: step_61)
  then obtain self where s: "GaborFilterCv2_build_filters getGaborKernel ?new = Inr self" ..
  note c = GaborFilterCv2_build_filters_count [OF s]
  have "length (cv2_kernels self) = 310"
    using c(1) by (simp add: arange_count_61)
  moreover have "orient_cnt self * scale_cnt self = 305"
    using c(2,3) by simp
  ultimately show ?thesis using s unfolding GaborFilterCv2_init_def by blast
qed

subsection \<open>The accumulator of GaborFilterCv2.filter\<close>

lemma cv2_loop:
  "length feats = n + length ks \<Longrightarrow>
   fold (\<lambda>(i, v) (feats, accum).
           let filtered = f v; accum = np_maximum accum filtered
           in (feats[i := accum], accum))
        (enumerate n ks) (feats, accum)
   = (take n feats @ map (\<lambda>j. fold (\<lambda>v a. np_maximum a (f v)) (take (Suc j) ks) accum)
                         [0..<length ks],
      fold (\<lambda>v a. np_maximum a (f v)) ks accum)"
proof (induction ks arbitrary: n feats accum)
  case Nil
  then show ?case by simp
next
  case (Cons k ks)
  let ?accum = "np_maximum accum (f k)"
  let ?feats = "feats[n := ?accum]"
  have n: "n < length feats" using Cons.prems by simp
  have len: "length ?feats = Suc n + length ks" using Cons.prems by simp
  have t: "take (Suc n) ?feats = take n feats @ [?accum]"
    using n by (simp add: take_Suc_conv_app_nth)
  have u: "[0..<Suc (length ks)] = 0 # map Suc [0..<length ks]"
    by (simp add: upt_conv_Cons map_Suc_upt del: upt_Suc)
  show ?case
    using Cons.IH [OF len, of ?accum]
    by (simp add: t u comp_def Let_def del: upt_Suc)
qed

lemma cv2_filter_slices:
  "GaborFilterCv2_filter filter2D self x =
     map (\<lambda>j. fold (\<lambda>v a. np_maximum a (filter2D x v)) (take (Suc j) (cv2_kernels self))
                 (zeros_like x))
         [0..<length (cv2_kernels self)]"
  unfolding GaborFilterCv2_filter_def
  by (subst cv2_loop) simp_all

lemma fold_take_Suc:
  "i < length ks \<Longrightarrow> fold g (take (Suc i) ks) a = g (ks ! i) (fold g (take i ks) a)"
  by (simp add: take_Suc_conv_app_nth)

lemma np_maximum_shape:
  "map length a = map length b \<Longrightarrow> map length (np_maximum a b) = map length a"
proof (induction a arbitrary: b)
  case Nil then show ?case by (simp add: np_maximum_def)
next
  case (Cons r a)
  then obtain s b' where b: "b = s # b'" by (cases b) auto
  with Cons.prems have "length r = length s" "map length a = map length b'" by auto
  with Cons.IH [of b'] show ?case by (simp add: np_maximum_def b)
qed

lemma np_maximum_nth:
  assumes "map length a = map length b" "r < length a" "c < length (a ! r)"
  shows "np_maximum a b ! r ! c = max (a ! r ! c) (b ! r ! c)"
proof -
  have lb: "length b = length a" using assms(1) by (metis length_map)
  have "length (b ! r) = length (a ! r)"
    using assms(1,2) lb by (metis nth_map)
  then show ?thesis using assms(2,3) lb by (simp add: np_maximum_def)
qed

lemma Max_insert_max:
  fixes a :: int
  shows "finite S \<Longrightarrow> Max (insert (max a b) S) = max a (Max (insert b S))"
  by (cases "S = {}") (simp_all add: max.assoc)

lemma running_max_entry:
  assumes "\<forall>v\<in>set ks. map length (f v) = map length z" "r < length z" "c < length (z ! r)"
  shows "map length (fold (\<lambda>v a. np_maximum a (f v)) ks z) = map length z
       \<and> fold (\<lambda>v a. np_maximum a (f v)) ks z ! r ! c
          = Max (insert (z ! r ! c) ((\<lambda>v. f v ! r ! c) ` set ks))"
  using assms
proof (induction ks arbitrary: z)
  case Nil
  then show ?case by simp
next
  case (Cons k ks)
  let ?z = "np_maximum z (f k)"
  have s: "map length z = map length (f k)" using Cons.prems(1) by simp
  have sh: "map length ?z = map length z" using np_maximum_shape [OF s] .
  have r: "r < length ?z" using sh Cons.prems(2) by (metis length_map)
  have c: "c < length (?z ! r)" using sh Cons.prems(2,3) r by (metis nth_map)
  have all: "\<forall>v\<in>set ks. map length (f v) = map length ?z" using Cons.prems(1) sh by simp
  have e: "?z ! r ! c = max (z ! r ! c) (f k ! r ! c)"
    using np_maximum_nth [OF s Cons.prems(2,3)] .
  have m: "Max (insert (z ! r ! c) (insert (f k ! r ! c) ((\<lambda>v. f v ! r ! c) ` set ks)))
      = max (z ! r ! c) (Max (insert (f k ! r ! c) ((\<lambda>v. f v ! r ! c) ` set ks)))"
    by (rule Max_insert) simp_all
  from Cons.IH [OF all r c] sh e show ?case
    by (simp add: Max_insert_max m del: Max_insert)
qed

lemma zeros_like_shape [simp]: "map length (zeros_like x) = map length x"
  by (simp add: zeros_like_def)

lemma zeros_like_nth: "r < length x \<Longrightarrow> c < length (x ! r) \<Longrightarrow> zeros_like x ! r ! c = 0"
  by (simp add: zeros_like_def)

lemma cv2_filter_entry:
  assumes "\<forall>v\<in>set (cv2_kernels self). map length (filter2D x v) = map length x"
    and "i < length (cv2_kernels self)" "r < length x" "c < length (x ! r)"
  shows "GaborFilterCv2_filter filter2D self x ! i ! r ! c
           = Max (insert 0 ((\<lambda>v. filter2D x v ! r ! c) ` set (take (Suc i) (cv2_kernels self))))"
proof -
  let ?ks = "take (Suc i) (cv2_kernels self)"
  have sh: "\<forall>v\<in>set ?ks. map length (filter2D x v) = map length (zeros_like x)"
    using assms(1) by (auto dest: in_set_takeD)
  have r: "r < length (zeros_like x)" using assms(3) by (simp add: zeros_like_def)
  have c: "c < length (zeros_like x ! r)" using assms(3,4) by (simp add: zeros_like_def)
  have "GaborFilterCv2_filter filter2D self x ! i
          = fold (\<lambda>v a. np_maximum a (filter2D x v)) ?ks (zeros_like x)"
    using assms(2) by (simp add: cv2_filter_slices del: upt_Suc)
  then show ?thesis
    using running_max_entry [OF sh r c] zeros_like_nth [OF assms(3,4)] by simp
qed

text \<open>
  Claim C3, as the code has it. \<^verbatim>\<open>filter\<close> returns one slice per kernel; the first
  slice is the entrywise maximum of zero and the response of the first kernel, and
  every later slice is the entrywise maximum of the slice before it and the response of
  its own kernel: the accumulator is never reset. Where \<^verbatim>\<open>filter2D\<close> returns arrays
  of the shape of the image, every entry of slice \<open>i\<close> is therefore the maximum of zero
  and the entries at its position in the responses of all kernels up to \<open>i\<close>.
\<close>

theorem GaborFilterCv2_filter_running_max:
  "length (GaborFilterCv2_filter filter2D self x) = length (cv2_kernels self)
   \<and> (0 < length (cv2_kernels self) \<longrightarrow>
        GaborFilterCv2_filter filter2D self x ! 0
          = np_maximum (zeros_like x) (filter2D x (cv2_kernels self ! 0)))
   \<and> (\<forall>i. Suc i < length (cv2_kernels self) \<longrightarrow>
        GaborFilterCv2_filter filter2D self x ! Suc i
          = np_maximum (GaborFilterCv2_filter filter2D self x ! i)
              (filter2D x (cv2_kernels self ! Suc i)))
   \<and> ((\<forall>v\<in>set (cv2_kernels self). map length (filter2D x v) = map length x) \<longrightarrow>
        (\<forall>i r c. i < length (cv2_kernels self) \<and> r < length x \<and> c < length (x ! r) \<longrightarrow>
           GaborFilterCv2_filter filter2D self x ! i ! r ! c
             = Max (insert 0 ((\<lambda>v. filter2D x v ! r ! c) ` set (take (Suc i) (cv2_kernels self))))))"
proof (intro conjI impI allI)
  show "length (GaborFilterCv2_filter filter2D self x) = length (cv2_kernels self)"
    by (simp add: cv2_filter_slices)
next
  assume "0 < length (cv2_kernels self)"
  then show "GaborFilterCv2_filter filter2D self x ! 0
          = np_maximum (zeros_like x) (filter2D x (cv2_kernels self ! 0))"
    by (simp add: cv2_filter_slices fold_take_Suc del: upt_Suc take_Suc_Cons)
next
  fix i assume i: "Suc i < length (cv2_kernels self)"
  then have "i < length (cv2_kernels self)" by simp
  with i show "GaborFilterCv2_filter filter2D self x ! Suc i
          = np_maximum (GaborFilterCv2_filter filter2D self x ! i)
              (filter2D x (cv2_kernels self ! Suc i))"
    by (simp add: cv2_filter_slices fold_take_Suc [of "Suc i"] del: upt_Suc)
next
  fix i r c
  assume "\<forall>v\<in>set (cv2_kernels self). map length (filter2D x v) = map length x"
    and "i < length (cv2_kernels self) \<and> r < length x \<and> c < length (x ! r)"
  then show "GaborFilterCv2_filter filter2D self x ! i ! r ! c
             = Max (insert 0 ((\<lambda>v. filter2D x v ! r ! c) ` set (take (Suc i) (cv2_kernels self))))"
    using cv2_filter_entry [of self filter2D x i r c] by blast
qed

lemma length_kernel_normalise [simp]: "length (kernel_normalise k) = length k"
  by (simp add: kernel_normalise_def)

lemma fl_0 [simp]: "fl 0 = 0"
  by (simp add: fl_def)

lemma GaborFilterCv2_init_1_2:
  "GaborFilterCv2_init getGaborKernel 1 2 =
     Inr \<lparr> orient_cnt = 1, scale_cnt = 2,
           cv2_kernels = [kernel_normalise (getGaborKernel 199 0),
                          kernel_normalise (getGaborKernel 99 0)] \<rparr>"
proof -
  have nz: "np_pi \<noteq> 0" by (simp add: np_pi_def)
  have k0: "\<lfloor>199 + 1 / 2 :: real\<rfloor> = 199" and k1: "\<lfloor>99 + 1 / 2 :: real\<rfloor> = 99" by linarith+
  show ?thesis
    using nz
    by (simp add: GaborFilterCv2_init_def GaborFilterCv2_build_filters_def np_arange_def
        fl_np_pi fl_8 py_range_def upt_small k0 k1)
qed

lemma np_maximum_rows: "np_maximum [[a, b]] [[c, d]] = [[max a c, max b d]]"
  by (simp add: np_maximum_def)

text \<open>
  Claim C3 as stated fails. The two library primitives are stand-ins:
  \<^verbatim>\<open>getGaborKernel\<close> returns a box of ones of the requested size, and \<^verbatim>\<open>filter2D\<close>
  responds \<open>[[5, 1]]\<close> to the kernel of size 199 and \<open>[[2, 3]]\<close> to the other. With
  one orientation and two scales the bank holds these two kernels, and the second slice
  of the result is \<open>[[5, 3]]\<close>: it is not the response of its own kernel, since the
  first kernel's larger response at the first pixel stays in the accumulator.
\<close>

theorem GaborFilterCv2_filter_running_max_counterexample:
  "map_sum id (\<lambda>self. map (\<lambda>v. if length v = 199 then [[5, 1]] else [[2, 3]]) (cv2_kernels self))
     (GaborFilterCv2_init (\<lambda>ksize theta. replicate (nat ksize) (replicate (nat ksize) 1)) 1 2)
     = Inr [[[5, 1]], [[2, 3]]]
   \<and> map_sum id (\<lambda>self. GaborFilterCv2_filter
                    (\<lambda>x v. if length v = 199 then [[5, 1]] else [[2, 3]]) self [[7, 4]])
     (GaborFilterCv2_init (\<lambda>ksize theta. replicate (nat ksize) (replicate (nat ksize) 1)) 1 2)
     = Inr [[[5, 1]], [[5, 3]]]"
  by (simp add: GaborFilterCv2_init_1_2 cv2_filter_slices upt_small zeros_like_def np_maximum_rows)

text \<open>
  A witness for claim C3, on the same instance and responses.
\<close>

theorem GaborFilterCv2_filter_running_max_witness:
  "GaborFilterCv2_init (\<lambda>ksize theta. replicate (nat ksize) (replicate (nat ksize) 1)) 1 2
     = Inr \<lparr> orient_cnt = 1, scale_cnt = 2,
             cv2_kernels = [kernel_normalise (replicate 199 (replicate 199 1)),
                            kernel_normalise (replicate 99 (replicate 99 1))] \<rparr>
   \<and> Suc 0 < length (cv2_kernels \<lparr> orient_cnt = 1, scale_cnt = 2,
             cv2_kernels = [kernel_normalise (replicate 199 (replicate 199 1)),
                            kernel_normalise (replicate 99 (replicate 99 1))] \<rparr>)
   \<and> GaborFilterCv2_filter (\<lambda>x v. if length v = 199 then [[5, 1]] else [[2, 3]])
        \<lparr> orient_cnt = 1, scale_cnt = 2,
          cv2_kernels = [kernel_normalise (replicate 199 (replicate 199 1)),
                         kernel_normalise (replicate 99 (replicate 99 1))] \<rparr> [[7, 4]] ! 0
       = [[5, 1]]
   \<and> GaborFilterCv2_filter (\<lambda>x v. if length v = 199 then [[5, 1]] else [[2, 3]])
        \<lparr> orient_cnt = 1, scale_cnt = 2,
          cv2_kernels = [kernel_normalise (replicate 199 (replicate 199 1)),
                         kernel_normalise (replicate 99 (replicate 99 1))] \<rparr> [[7, 4]] ! Suc 0
       = [[5, 3]]
   \<and> GaborFilterCv2_filter (\<lambda>x v. if length v = 199 then [[5, 1]] else [[2, 3]])
        \<lparr> orient_cnt = 1, scale_cnt = 2,
          cv2_kernels = [kernel_normalise (replicate 199 (replicate 199 1)),
                         kernel_normalise (replicate 99 (replicate 99 1))] \<rparr> [[7, 4]] ! Suc 0 ! 0 ! 0
       = Max {0, 5, 2}"
proof -
  let ?f = "\<lambda>(x :: image8) (v :: npfloat list list). if length v = 199 then [[5, 1]] else [[2, 3 :: int]]"
  let ?self = "\<lparr> orient_cnt = 1, scale_cnt = 2,
          cv2_kernels = [kernel_normalise (replicate 199 (replicate 199 1)),
                         kernel_normalise (replicate 99 (replicate 99 1))] \<rparr>"
  note main = GaborFilterCv2_filter_running_max [of ?f ?self "[[7, 4]]"]
  have i: "GaborFilterCv2_init (\<lambda>ksize theta. replicate (nat ksize) (replicate (nat ksize) 1)) 1 2
     = Inr ?self"
    by (simp add: GaborFilterCv2_init_1_2)
  have l: "0 < length (cv2_kernels ?self)" "Suc 0 < length (cv2_kernels ?self)" by simp_all
  from main l(1) have s0: "GaborFilterCv2_filter ?f ?self [[7, 4]] ! 0 = [[5, 1]]"
    by (simp add: zeros_like_def np_maximum_rows)
  from main l(2) have "GaborFilterCv2_filter ?f ?self [[7, 4]] ! Suc 0
      = np_maximum (GaborFilterCv2_filter ?f ?self [[7, 4]] ! 0) (?f [[7, 4]] (cv2_kernels ?self ! Suc 0))"
    by blast
  then have s1: "GaborFilterCv2_filter ?f ?self [[7, 4]] ! Suc 0 = [[5, 3]]"
    by (simp add: s0 np_maximum_rows)
  have sh: "\<forall>v\<in>set (cv2_kernels ?self). map length (?f [[7, 4]] v) = map length ([[7, 4]] :: image8)"
    by simp
  from main have "(\<forall>v\<in>set (cv2_kernels ?self). map length (?f [[7, 4]] v) = map length ([[7, 4]] :: image8)) \<longrightarrow>
        (\<forall>i r c. i < length (cv2_kernels ?self) \<and> r < length ([[7, 4]] :: image8) \<and> c < length (([[7, 4]] :: image8) ! r) \<longrightarrow>
           GaborFilterCv2_filter ?f ?self [[7, 4]] ! i ! r ! c
             = Max (insert 0 ((\<lambda>v. ?f [[7, 4]] v ! r ! c) ` set (take (Suc i) (cv2_kernels ?self)))))"
    by (elim conjE)
  with sh have "\<forall>i r c. i < length (cv2_kernels ?self) \<and> r < length ([[7, 4]] :: image8) \<and> c < length (([[7, 4]] :: image8) ! r) \<longrightarrow>
           GaborFilterCv2_filter ?f ?self [[7, 4]] ! i ! r ! c
             = Max (insert 0 ((\<lambda>v. ?f [[7, 4]] v ! r ! c) ` set (take (Suc i) (cv2_kernels ?self))))"
    by (rule rev_mp)
  from this [rule_format, of "Suc 0" 0 0]
  have s2: "GaborFilterCv2_filter ?f ?self [[7, 4]] ! Suc 0 ! 0 ! 0 = Max {0, 5, 2}"
    by simp
  show ?thesis using i l(2) s0 s1 s2 by simp
qed

subsection \<open>The lengths of the spatial histograms\<close>

lemma multi_scale_loop_eq:
  "multi_scale_loop base X hists = map_sum id (\<lambda>hs. hists @ hs) (map_result base X)"
  by (induction X arbitrary: hists) (auto split: sum.splits)

lemma concatenated_loop_eq:
  "concatenated_loop base X hists = map_sum id (\<lambda>hs. hists @ concat hs) (map_result base X)"
  by (induction X arbitrary: hists) (auto split: sum.splits)

lemma map_result_length: "map_result f X = Inr vs \<Longrightarrow> length vs = length X"
  by (induction X arbitrary: vs) (auto split: sum.splits)

lemma map_result_base:
  "map_result (SpatialHistogram_spatially_enhanced_histogram ch self) X
     = map_sum id (map concat) (map_result (ch (sz self)) X)"
  by (induction X)
     (auto simp: SpatialHistogram_spatially_enhanced_histogram_def split: sum.splits)

lemma length_concat_concat:
  "length (concat (map concat cells)) = (\<Sum>c\<leftarrow>cells. \<Sum>hist\<leftarrow>c. length hist)"
  by (simp add: length_concat comp_def)

text \<open>
  Claim C6, as the code has it. Where the histogram primitive succeeds on every map of
  the input stack, \<^verbatim>\<open>ConcatenatedSpatialHistogram\<close> returns the per-cell histograms of
  all maps flattened into one sequence, whose length is the sum of the per-cell
  histogram lengths; \<^verbatim>\<open>MultiScaleSpatialHistogram\<close> returns one entry per map of the
  stack, the flattened per-cell histograms of that map, so its length is the number of
  maps.
\<close>

theorem spatial_histogram_lengths:
  "(ConcatenatedSpatialHistogram_spatially_enhanced_histogram cell_histograms self X = Inr h \<longrightarrow>
      (\<exists>cells. map_result (cell_histograms (sz self)) X = Inr cells
           \<and> h = concat (map concat cells)
           \<and> length h = (\<Sum>c\<leftarrow>cells. \<Sum>hist\<leftarrow>c. length hist)))
   \<and> (MultiScaleSpatialHistogram_spatially_enhanced_histogram cell_histograms self X = Inr hs \<longrightarrow>
      (\<exists>cells. map_result (cell_histograms (sz self)) X = Inr cells
           \<and> hs = map concat cells
           \<and> length hs = length X))"
proof (intro conjI impI)
  assume "ConcatenatedSpatialHistogram_spatially_enhanced_histogram cell_histograms self X = Inr h"
  then obtain cells where c: "map_result (cell_histograms (sz self)) X = Inr cells"
    and h: "h = concat (map concat cells)"
    by (cases "map_result (cell_histograms (sz self)) X")
       (auto simp: ConcatenatedSpatialHistogram_spatially_enhanced_histogram_def
          concatenated_loop_eq map_result_base)
  show "\<exists>cells. map_result (cell_histograms (sz self)) X = Inr cells
           \<and> h = concat (map concat cells)
           \<and> length h = (\<Sum>c\<leftarrow>cells. \<Sum>hist\<leftarrow>c. length hist)"
    using c h length_concat_concat [of cells] by blast
next
  assume "MultiScaleSpatialHistogram_spatially_enhanced_histogram cell_histograms self X = Inr hs"
  then obtain cells where c: "map_result (cell_histograms (sz self)) X = Inr cells"
    and h: "hs = map concat cells"
    by (cases "map_result (cell_histograms (sz self)) X")
       (auto simp: MultiScaleSpatialHistogram_spatially_enhanced_histogram_def
          multi_scale_loop_eq map_result_base)
  show "\<exists>cells. map_result (cell_histograms (sz self)) X = Inr cells
           \<and> hs = map concat cells
           \<and> length hs = length X"
    using c h map_result_length [OF c] by simp
qed

text \<open>
  Claim C6 as stated fails for \<^verbatim>\<open>MultiScaleSpatialHistogram\<close>: on a stack of one map
  with the default 8 by 8 grid the result has length 1, and the cell count is 64. (The
  histogram primitive is a stand-in that gives every cell the one-bin histogram
  \<open>[1]\<close>.)
\<close>

theorem spatial_histogram_lengths_counterexample:
  "map_sum id length
     (MultiScaleSpatialHistogram_spatially_enhanced_histogram
        (\<lambda>sz x. Inr (replicate (fst sz * snd sz) [1 :: nat]))
        MultiScaleSpatialHistogram_init [[[0 :: real]]]) = Inr 1
   \<and> cell_count MultiScaleSpatialHistogram_init = 64"
  by (simp add: MultiScaleSpatialHistogram_spatially_enhanced_histogram_def
      SpatialHistogram_spatially_enhanced_histogram_def MultiScaleSpatialHistogram_init_def
      cell_count_def)

text \<open>
  A witness for claim C6: a stack of two maps on a grid of two cells.
\<close>

theorem spatial_histogram_lengths_witness:
  "ConcatenatedSpatialHistogram_spatially_enhanced_histogram
       (\<lambda>sz x. Inr (replicate (fst sz * snd sz) [x])) \<lparr> sz = (1, 2) \<rparr> [3, 4 :: nat]
     = Inr [3, 3, 4, 4]
   \<and> MultiScaleSpatialHistogram_spatially_enhanced_histogram
       (\<lambda>sz x. Inr (replicate (fst sz * snd sz) [x])) \<lparr> sz = (1, 2) \<rparr> [3, 4 :: nat]
     = Inr [[3, 3], [4, 4]]
   \<and> map_result ((\<lambda>sz x. Inr (replicate (fst sz * snd sz) [x])) (sz \<lparr> sz = (1, 2) \<rparr>)) [3, 4 :: nat]
     = Inr [[[3], [3]], [[4], [4]]]
   \<and> length [3, 3, 4, 4 :: nat] = (\<Sum>c\<leftarrow>[[[3], [3]], [[4], [4 :: nat]]]. \<Sum>hist\<leftarrow>c. length hist)
   \<and> length [[3, 3], [4, 4 :: nat]] = length [3, 4 :: nat]"
proof -
  let ?ch = "\<lambda>(sz :: nat \<times> nat) (x :: nat). Inr (replicate (fst sz * snd sz) [x]) :: error + nat list list"
  let ?self = "\<lparr> sz = (1, 2) \<rparr>"
  have c: "ConcatenatedSpatialHistogram_spatially_enhanced_histogram ?ch ?self [3, 4] = Inr [3, 3, 4, 4]"
    by (simp add: ConcatenatedSpatialHistogram_spatially_enhanced_histogram_def
        SpatialHistogram_spatially_enhanced_histogram_def numeral_2_eq_2)
  have m: "MultiScaleSpatialHistogram_spatially_enhanced_histogram ?ch ?self [3, 4] = Inr [[3, 3], [4, 4]]"
    by (simp add: MultiScaleSpatialHistogram_spatially_enhanced_histogram_def
        SpatialHistogram_spatially_enhanced_histogram_def numeral_2_eq_2)
  have r: "map_result (?ch (sz ?self)) [3, 4] = Inr [[[3], [3]], [[4], [4]]]"
    by (simp add: numeral_2_eq_2)
  from spatial_histogram_lengths [of ?ch ?self "[3, 4]" "[3, 3, 4, 4]" "[[3, 3], [4, 4]]"] c m r
  have "length [3, 3, 4, 4 :: nat] = (\<Sum>c\<leftarrow>[[[3], [3]], [[4], [4 :: nat]]]. \<Sum>hist\<leftarrow>c. length hist)"
    and "length [[3, 3], [4, 4 :: nat]] = length [3, 4 :: nat]"
    by auto
  with c m r show ?thesis by blast
qed

end
